theory Spec2Isabelle
  imports Main
begin

section \<open>Exceptions and Python list indexing\<close>

text \<open>
  Exceptions of the source are values. \<open>External\<close> carries a failure raised inside the
  database library (engine construction, connect, begin, commit, rollback, close);
  \<open>Exception\<close> is the source's own \<^verbatim>\<open>raise Exception(msg)\<close>. \<open>Blocked\<close> is not an
  exception: it is the outcome of a blocking \<^verbatim>\<open>Lock.acquire()\<close> on a lock that is held,
  which in a run of one thread does not return.
\<close>

datatype error =
    TypeError
  | ValueError
  | IndexError
  | AttributeError
  | RuntimeError
  | Exception string
  | External string
  | Blocked

text \<open>
  \<^verbatim>\<open>xs[i]\<close> and \<^verbatim>\<open>del xs[i]\<close> on a Python list: an index below zero counts from the
  end, and an index outside \<open>-len .. len - 1\<close> raises IndexError.
\<close>

definition py_norm_index :: "'a list \<Rightarrow> int \<Rightarrow> int" where
  "py_norm_index xs i = (if i < 0 then i + int (length xs) else i)"

definition py_getitem :: "'a list \<Rightarrow> int \<Rightarrow> error + 'a" where
  "py_getitem xs i =
     (if 0 \<le> py_norm_index xs i \<and> py_norm_index xs i < int (length xs)
      then Inr (xs ! nat (py_norm_index xs i))
      else Inl IndexError)"

definition py_delitem :: "'a list \<Rightarrow> int \<Rightarrow> error + 'a list" where
  "py_delitem xs i =
     (if 0 \<le> py_norm_index xs i \<and> py_norm_index xs i < int (length xs)
      then Inr (take (nat (py_norm_index xs i)) xs @ drop (Suc (nat (py_norm_index xs i))) xs)
      else Inl IndexError)"

text \<open>
  The \<^verbatim>\<open>%\<close> operator on a format string, with the arguments already rendered as
  strings. \<^verbatim>\<open>%%\<close> is a literal percent sign; any other \<^verbatim>\<open>%c\<close> consumes one
  argument. Too few arguments, or arguments left over, raise TypeError; a format string
  ending in a lone \<^verbatim>\<open>%\<close> raises ValueError.
\<close>

fun percent_format :: "string \<Rightarrow> string list \<Rightarrow> error + string" where
  "percent_format [] args = (if args = [] then Inr [] else Inl TypeError)"
| "percent_format [c] args =
     (if c = CHR ''%'' then Inl ValueError
      else if args = [] then Inr [c] else Inl TypeError)"
| "percent_format (c # d # cs) args =
     (if c \<noteq> CHR ''%'' then
        (case percent_format (d # cs) args of Inl e \<Rightarrow> Inl e | Inr s \<Rightarrow> Inr (c # s))
      else if d = CHR ''%'' then
        (case percent_format cs args of Inl e \<Rightarrow> Inl e | Inr s \<Rightarrow> Inr (CHR ''%'' # s))
      else
        (case args of
           [] \<Rightarrow> Inl TypeError
         | a # as \<Rightarrow> (case percent_format cs as of Inl e \<Rightarrow> Inl e | Inr s \<Rightarrow> Inr (a @ s))))"

section \<open>AtomicInt: the bounded rotating counter\<close>

text \<open>
  \<^verbatim>\<open>AtomicInt\<close> holds a Python integer (unbounded, so \<open>int\<close>). Its lock is taken and
  released inside each method, so a single-threaded run never sees it held and the model
  keeps the value only.
\<close>

record AtomicInt =
  ai_value :: int

definition AtomicInt_init :: "int \<Rightarrow> AtomicInt" where
  "AtomicInt_init v = \<lparr>ai_value = v\<rparr>"

definition AtomicInt_get :: "AtomicInt \<Rightarrow> int" where
  "AtomicInt_get a = ai_value a"

definition AtomicInt_set :: "int \<Rightarrow> AtomicInt \<Rightarrow> AtomicInt" where
  "AtomicInt_set v a = a\<lparr>ai_value := v\<rparr>"

definition AtomicInt_inc :: "AtomicInt \<Rightarrow> AtomicInt" where
  "AtomicInt_inc a = a\<lparr>ai_value := ai_value a + 1\<rparr>"

definition AtomicInt_dec :: "AtomicInt \<Rightarrow> AtomicInt" where
  "AtomicInt_dec a = a\<lparr>ai_value := ai_value a - 1\<rparr>"

text \<open>\<^verbatim>\<open>next(max)\<close> returns the value read and the counter after the update.\<close>

definition AtomicInt_next :: "int \<Rightarrow> AtomicInt \<Rightarrow> int \<times> AtomicInt" where
  "AtomicInt_next mx a =
     (let current = ai_value a
      in if current + 1 > mx
         then (current, a\<lparr>ai_value := 0\<rparr>)
         else (current, a\<lparr>ai_value := ai_value a + 1\<rparr>))"

section \<open>Connection handles\<close>

text \<open>
  Handles are Python objects shared by reference between the rotation, the pool and the
  caller, so they live in a store: a reference is a number, the store maps references to
  handle objects, and \<open>w_next_ref\<close> is the next unused reference. A physical connection
  is owned by one handle and is kept inside it; the transaction object returned by
  \<^verbatim>\<open>connection.begin()\<close> is opaque.
\<close>

type_synonym ref = nat

record Connection =
  conn_closed :: bool

datatype Transaction = Transaction

record WaitableConnection =
  wc_id :: string
  wc_connection :: "Connection option"
  wc_lock :: bool
  wc_transaction :: "Transaction option"
  wc_in_use :: bool

definition WaitableConnection_init :: "string \<Rightarrow> Connection \<Rightarrow> WaitableConnection" where
  "WaitableConnection_init uuid connection =
     \<lparr>wc_id = uuid, wc_connection = Some connection, wc_lock = False,
      wc_transaction = None, wc_in_use = False\<rparr>"

definition WaitableConnection_is_healthy :: "WaitableConnection \<Rightarrow> bool" where
  "WaitableConnection_is_healthy h =
     (case wc_connection h of None \<Rightarrow> False | Some c \<Rightarrow> \<not> conn_closed c)"

definition WaitableConnection_in_use :: "WaitableConnection \<Rightarrow> bool" where
  "WaitableConnection_in_use h = wc_in_use h"

text \<open>\<^verbatim>\<open>__eq__\<close>: both operands are handles, so the class test holds and the ids decide.\<close>

definition WaitableConnection_eq :: "WaitableConnection \<Rightarrow> WaitableConnection \<Rightarrow> bool" where
  "WaitableConnection_eq a b = (wc_id a = wc_id b)"

section \<open>ConnectionCycle: the rotation\<close>

text \<open>
  The rotation holds references in insertion order and the cursor. Its list lock is taken
  and released inside \<^verbatim>\<open>add\<close>, \<^verbatim>\<open>delete\<close> and \<^verbatim>\<open>delete_by_index\<close>; \<^verbatim>\<open>cycle\<close> runs
  \<^verbatim>\<open>_cycle\<close> on both sides of its test of that lock, so the lock is not part of the
  state. The TRACE log lines of the rotation are not modelled.
\<close>

record ConnectionCycle =
  cc_items :: "ref list"
  cc_pointer :: AtomicInt

definition ConnectionCycle_init :: ConnectionCycle where
  "ConnectionCycle_init = \<lparr>cc_items = [], cc_pointer = AtomicInt_init 0\<rparr>"

definition ConnectionCycle_size :: "ConnectionCycle \<Rightarrow> nat" where
  "ConnectionCycle_size c = length (cc_items c)"

definition ConnectionCycle_add :: "ref \<Rightarrow> ConnectionCycle \<Rightarrow> ConnectionCycle" where
  "ConnectionCycle_add connection c = c\<lparr>cc_items := cc_items c @ [connection]\<rparr>"

text \<open>
  \<^verbatim>\<open>_delete_by_index\<close>: the cursor is adjusted before the list is indexed, so an
  IndexError of \<^verbatim>\<open>self._items[index]\<close> leaves the adjusted cursor behind.
\<close>

definition ConnectionCycle__delete_by_index ::
  "int \<Rightarrow> ConnectionCycle \<Rightarrow> (error + ref option) \<times> ConnectionCycle" where
  "ConnectionCycle__delete_by_index index c =
     (if index \<ge> int (length (cc_items c)) then (Inr None, c)
      else
        let pointer = AtomicInt_get (cc_pointer c);
            c1 = (if pointer \<ge> index then
                    (if pointer \<ge> int (length (cc_items c)) - 1
                     then c\<lparr>cc_pointer := AtomicInt_set 0 (cc_pointer c)\<rparr>
                     else c\<lparr>cc_pointer := AtomicInt_dec (cc_pointer c)\<rparr>)
                  else c)
        in case py_getitem (cc_items c1) index of
             Inl e \<Rightarrow> (Inl e, c1)
           | Inr conn \<Rightarrow>
               (case py_delitem (cc_items c1) index of
                  Inl e \<Rightarrow> (Inl e, c1)
                | Inr items' \<Rightarrow> (Inr (Some conn), c1\<lparr>cc_items := items'\<rparr>)))"

text \<open>The public \<^verbatim>\<open>delete_by_index\<close> drops the removed handle and returns None.\<close>

definition ConnectionCycle_delete_by_index ::
  "int \<Rightarrow> ConnectionCycle \<Rightarrow> (error + unit) \<times> ConnectionCycle" where
  "ConnectionCycle_delete_by_index index c =
     (case ConnectionCycle__delete_by_index index c of
        (Inl e, c') \<Rightarrow> (Inl e, c')
      | (Inr _, c') \<Rightarrow> (Inr (), c'))"

text \<open>
  The search loop of \<^verbatim>\<open>delete\<close>: \<open>i\<close> counts the items passed; the result is the
  position of the first item equal to \<open>connection\<close>, or \<open>-1\<close>.
\<close>

fun delete_scan :: "(ref \<Rightarrow> WaitableConnection) \<Rightarrow> ref \<Rightarrow> ref list \<Rightarrow> int \<Rightarrow> int" where
  "delete_scan hp connection [] i = -1"
| "delete_scan hp connection (c # cs) i =
     (if WaitableConnection_eq (hp c) (hp connection) then i
      else delete_scan hp connection cs (i + 1))"

definition ConnectionCycle_delete ::
  "(ref \<Rightarrow> WaitableConnection) \<Rightarrow> ref \<Rightarrow> ConnectionCycle \<Rightarrow> (error + bool) \<times> ConnectionCycle" where
  "ConnectionCycle_delete hp connection c =
     (let index = delete_scan hp connection (cc_items c) 0
      in if index = -1 then (Inr False, c)
         else (case ConnectionCycle__delete_by_index index c of
                 (Inl e, c') \<Rightarrow> (Inl e, c')
               | (Inr _, c') \<Rightarrow> (Inr True, c')))"

definition ConnectionCycle_peek :: "ConnectionCycle \<Rightarrow> error + ref option" where
  "ConnectionCycle_peek c =
     (if length (cc_items c) = 0 then Inr None
      else (case py_getitem (cc_items c) (AtomicInt_get (cc_pointer c)) of
              Inl e \<Rightarrow> Inl e
            | Inr conn \<Rightarrow> Inr (Some conn)))"

text \<open>\<^verbatim>\<open>_cycle\<close>: the counter advances first, then the list is indexed with the old value.\<close>

definition ConnectionCycle__cycle :: "ConnectionCycle \<Rightarrow> (error + ref option) \<times> ConnectionCycle" where
  "ConnectionCycle__cycle c =
     (case AtomicInt_next (int (length (cc_items c)) - 1) (cc_pointer c) of
        (current, p') \<Rightarrow>
          (case py_getitem (cc_items c) current of
             Inl e \<Rightarrow> (Inl e, c\<lparr>cc_pointer := p'\<rparr>)
           | Inr conn \<Rightarrow> (Inr (Some conn), c\<lparr>cc_pointer := p'\<rparr>)))"

definition ConnectionCycle_cycle :: "ConnectionCycle \<Rightarrow> (error + ref option) \<times> ConnectionCycle" where
  "ConnectionCycle_cycle c =
     (if length (cc_items c) = 0 then (Inr None, c) else ConnectionCycle__cycle c)"

text \<open>\<open>n\<close> calls of \<^verbatim>\<open>cycle()\<close> in a row, with nothing in between: the results in order.\<close>

fun cycle_times :: "nat \<Rightarrow> ConnectionCycle \<Rightarrow> (error + ref option) list \<times> ConnectionCycle" where
  "cycle_times 0 c = ([], c)"
| "cycle_times (Suc n) c =
     (case ConnectionCycle_cycle c of
        (r, c') \<Rightarrow> (case cycle_times n c' of (rs, c'') \<Rightarrow> (r # rs, c'')))"



section \<open>The pool and the world\<close>

text \<open>
  Calls into the database library and the random handle id are inputs: one \<open>ext\<close> value
  gives, for one call of a pool or handle method, the outcome of each external call the
  method can make (each is made at most once per call). \<open>ext_exc_info\<close> is the text of
  \<^verbatim>\<open>repr(exc_info())\<close>.
\<close>

record ext =
  ext_uuid :: string
  ext_create_engine :: "error option"
  ext_connect :: "error + Connection"
  ext_close :: "error option"
  ext_begin :: "error option"
  ext_commit :: "error option"
  ext_rollback :: "error option"
  ext_exc_info :: string

datatype LogLevel = FATAL | ERROR | WARN | INFO | DEBUG | TRACE

text \<open>
  The trace records the calls made on the database library and the log lines that the
  handle builds with \<^verbatim>\<open>%\<close> from run-time values (those of \<^verbatim>\<open>self_heal\<close> and
  \<^verbatim>\<open>rollback_transaction\<close>). Log lines with a constant text, and the lines of the pool
  and the rotation (constant texts, or formats whose arguments match), change nothing a
  later step reads and are left out.
\<close>

datatype event =
    Log LogLevel string
  | EngineConnect
  | ConnectionClose
  | ConnectionBegin
  | TransactionCommit
  | TransactionRollback

text \<open>
  \<open>cp_engine\<close> says whether \<^verbatim>\<open>_engine\<close> is set. The pool lock is taken and released
  inside \<^verbatim>\<open>create_db_engine\<close>, \<^verbatim>\<open>create_connection(lock=True)\<close> and
  \<^verbatim>\<open>remove_connection\<close>, never across calls, so it is not part of the state; what
  \<^verbatim>\<open>self._lock.locked()\<close> reads in \<^verbatim>\<open>get_connection\<close> (true only while another thread is
  inside one of those methods) is an input of \<open>ConnectionPool_get_connection\<close>.
\<close>

record ConnectionPool =
  cp_engine :: bool
  cp_connections :: "ref list"
  cp_connection_cycle :: ConnectionCycle
  cp_max_pool_size :: int

record world =
  w_heap :: "ref \<Rightarrow> WaitableConnection"
  w_next_ref :: ref
  w_pool :: ConnectionPool
  w_trace :: "event list"

definition emit :: "event \<Rightarrow> world \<Rightarrow> world" where
  "emit e w = w\<lparr>w_trace := w_trace w @ [e]\<rparr>"

definition update_handle :: "ref \<Rightarrow> (WaitableConnection \<Rightarrow> WaitableConnection) \<Rightarrow> world \<Rightarrow> world" where
  "update_handle r f w = w\<lparr>w_heap := (w_heap w)(r := f (w_heap w r))\<rparr>"

definition set_cycle :: "ConnectionCycle \<Rightarrow> world \<Rightarrow> world" where
  "set_cycle c w = w\<lparr>w_pool := (w_pool w)\<lparr>cp_connection_cycle := c\<rparr>\<rparr>"

definition ConnectionPool_init :: "int \<Rightarrow> ConnectionPool" where
  "ConnectionPool_init max_pool_size =
     \<lparr>cp_engine = False, cp_connections = [], cp_connection_cycle = ConnectionCycle_init,
      cp_max_pool_size = max_pool_size\<rparr>"

definition ConnectionPool_size :: "world \<Rightarrow> nat" where
  "ConnectionPool_size w = ConnectionCycle_size (cp_connection_cycle (w_pool w))"

definition ConnectionPool_create_db_engine :: "bool \<Rightarrow> ext \<Rightarrow> world \<Rightarrow> (error + unit) \<times> world" where
  "ConnectionPool_create_db_engine recreate x w =
     (if cp_engine (w_pool w) \<and> \<not> recreate then (Inr (), w)
      else (case ext_create_engine x of
              Some e \<Rightarrow> (Inl e, w)
            | None \<Rightarrow> (Inr (), w\<lparr>w_pool := (w_pool w)\<lparr>cp_engine := True\<rparr>\<rparr>)))"

text \<open>\<^verbatim>\<open>_create_connection\<close>: the grow routine, with its guard against overflow.\<close>

definition ConnectionPool__create_connection :: "ext \<Rightarrow> world \<Rightarrow> (error + ref option) \<times> world" where
  "ConnectionPool__create_connection x w =
     (if int (ConnectionCycle_size (cp_connection_cycle (w_pool w))) \<ge> cp_max_pool_size (w_pool w)
      then (case ConnectionCycle_cycle (cp_connection_cycle (w_pool w)) of
              (res, c') \<Rightarrow> (res, set_cycle c' w))
      else if \<not> cp_engine (w_pool w) then (Inl AttributeError, w)
      else (case ext_connect x of
              Inl e \<Rightarrow> (Inl e, emit EngineConnect w)
            | Inr connection \<Rightarrow>
                (let w1 = emit EngineConnect w;
                     r = w_next_ref w1;
                     w2 = w1\<lparr>w_heap := (w_heap w1)(r := WaitableConnection_init (ext_uuid x) connection),
                             w_next_ref := Suc r\<rparr>;
                     w3 = w2\<lparr>w_pool := (w_pool w2)\<lparr>cp_connections := cp_connections (w_pool w2) @ [r]\<rparr>\<rparr>;
                     w4 = set_cycle (ConnectionCycle_add r (cp_connection_cycle (w_pool w3))) w3
                 in (Inr (Some r), w4))))"

text \<open>
  \<^verbatim>\<open>create_connection\<close> returns a bare connection when \<^verbatim>\<open>raw_connection_only\<close> is set
  and a handle otherwise; the two cases have different result types and are two functions
  here. Both build the engine first when there is none.
\<close>

definition ConnectionPool_create_raw_connection :: "ext \<Rightarrow> world \<Rightarrow> (error + Connection) \<times> world" where
  "ConnectionPool_create_raw_connection x w =
     (case (if \<not> cp_engine (w_pool w) then ConnectionPool_create_db_engine False x w else (Inr (), w)) of
        (Inl e, w1) \<Rightarrow> (Inl e, w1)
      | (Inr _, w1) \<Rightarrow>
          (case ext_connect x of
             Inl e \<Rightarrow> (Inl e, emit EngineConnect w1)
           | Inr connection \<Rightarrow> (Inr connection, emit EngineConnect w1)))"

definition ConnectionPool_create_connection :: "bool \<Rightarrow> ext \<Rightarrow> world \<Rightarrow> (error + ref option) \<times> world" where
  "ConnectionPool_create_connection lock x w =
     (case (if \<not> cp_engine (w_pool w) then ConnectionPool_create_db_engine False x w else (Inr (), w)) of
        (Inl e, w1) \<Rightarrow> (Inl e, w1)
      | (Inr _, w1) \<Rightarrow>
          (if lock then ConnectionPool__create_connection x w1
           else ConnectionPool__create_connection x w1))"

definition ConnectionPool_remove_connection :: "ref \<Rightarrow> world \<Rightarrow> (error + bool) \<times> world" where
  "ConnectionPool_remove_connection connection w =
     (case ConnectionCycle_delete (w_heap w) connection (cp_connection_cycle (w_pool w)) of
        (res, c') \<Rightarrow> (res, set_cycle c' w))"

text \<open>
  \<^verbatim>\<open>get_connection\<close>. The condition is evaluated left to right with short-circuit:
  \<^verbatim>\<open>peek()\<close> is called only when the rotation is not empty and below the maximum, and the
  lock is looked at only when the handle at the cursor is in use.
\<close>

definition ConnectionPool_get_connection :: "bool \<Rightarrow> ext \<Rightarrow> world \<Rightarrow> (error + ref option) \<times> world" where
  "ConnectionPool_get_connection locked x w =
     (let c = cp_connection_cycle (w_pool w)
      in if ConnectionCycle_size c = 0 then ConnectionPool_create_connection True x w
         else if int (ConnectionCycle_size c) < cp_max_pool_size (w_pool w) then
           (case ConnectionCycle_peek c of
              Inl e \<Rightarrow> (Inl e, w)
            | Inr None \<Rightarrow> (Inl AttributeError, w)
            | Inr (Some r) \<Rightarrow>
                (if WaitableConnection_in_use (w_heap w r) \<and> \<not> locked
                 then ConnectionPool_create_connection True x w
                 else (case ConnectionCycle_cycle c of (res, c') \<Rightarrow> (res, set_cycle c' w))))
         else (case ConnectionCycle_cycle c of (res, c') \<Rightarrow> (res, set_cycle c' w)))"

text \<open>
  \<^verbatim>\<open>initialize\<close> for a key that is not registered yet: a new pool, its engine, and
  \<^verbatim>\<open>initial_pool_size\<close> calls of \<^verbatim>\<open>create_connection()\<close>; \<open>xs i\<close> gives the external
  outcomes of the \<open>i\<close>-th call. The registry of pools is not modelled: a world holds
  one pool.
\<close>

fun initialize_loop :: "nat \<Rightarrow> nat \<Rightarrow> (nat \<Rightarrow> ext) \<Rightarrow> world \<Rightarrow> (error + unit) \<times> world" where
  "initialize_loop i 0 xs w = (Inr (), w)"
| "initialize_loop i (Suc n) xs w =
     (case ConnectionPool_create_connection False (xs i) w of
        (Inl e, w') \<Rightarrow> (Inl e, w')
      | (Inr _, w') \<Rightarrow> initialize_loop (Suc i) n xs w')"

definition empty_world :: "int \<Rightarrow> world" where
  "empty_world max_pool_size =
     \<lparr>w_heap = (\<lambda>_. \<lparr>wc_id = [], wc_connection = None, wc_lock = False,
                     wc_transaction = None, wc_in_use = False\<rparr>),
      w_next_ref = 0, w_pool = ConnectionPool_init max_pool_size, w_trace = []\<rparr>"

definition ConnectionPool_initialize :: "int \<Rightarrow> int \<Rightarrow> ext \<Rightarrow> (nat \<Rightarrow> ext) \<Rightarrow> (error + unit) \<times> world" where
  "ConnectionPool_initialize max_pool_size initial_pool_size x xs =
     (case ConnectionPool_create_db_engine False x (empty_world max_pool_size) of
        (Inl e, w) \<Rightarrow> (Inl e, w)
      | (Inr _, w) \<Rightarrow>
          (if initial_pool_size > 0 then initialize_loop 0 (nat initial_pool_size) xs w
           else (Inr (), w)))"

section \<open>Transactions on a handle\<close>

definition py_str :: "string option \<Rightarrow> string" where
  "py_str v = (case v of None \<Rightarrow> ''None'' | Some s \<Rightarrow> s)"

text \<open>
  \<^verbatim>\<open>self_heal\<close>. Its first statement formats a log line; the two \<^verbatim>\<open>try\<close> blocks catch
  everything, so a failing \<^verbatim>\<open>close()\<close> (or a missing connection) is swallowed and a
  failing raw acquisition leads to the removal of the handle from the pool.
\<close>

definition WaitableConnection_self_heal :: "ref \<Rightarrow> ext \<Rightarrow> world \<Rightarrow> (error + bool) \<times> world" where
  "WaitableConnection_self_heal r x w =
     (case percent_format ''self-healing connection...'' [ext_exc_info x] of
        Inl e \<Rightarrow> (Inl e, w)
      | Inr msg \<Rightarrow>
          (let w1 = emit (Log DEBUG msg) w;
               w2 = (case wc_connection (w_heap w1 r) of
                       None \<Rightarrow> w1
                     | Some c \<Rightarrow>
                         (case ext_close x of
                            Some e \<Rightarrow> emit ConnectionClose w1
                          | None \<Rightarrow> update_handle r (\<lambda>h. h\<lparr>wc_connection := Some (c\<lparr>conn_closed := True\<rparr>)\<rparr>)
                                      (emit ConnectionClose w1)))
           in case ConnectionPool_create_raw_connection x w2 of
                (Inr connection, w3) \<Rightarrow>
                  (Inr True, update_handle r (\<lambda>h. h\<lparr>wc_connection := Some connection\<rparr>) w3)
              | (Inl e, w3) \<Rightarrow>
                  (case percent_format
                          ''failed to self-heal connection. Removing connection from pool. Error = [%s]''
                          [ext_exc_info x] of
                     Inl e' \<Rightarrow> (Inl e', w3)
                   | Inr msg' \<Rightarrow>
                       (case ConnectionPool_remove_connection r (emit (Log ERROR msg') w3) of
                          (Inl e'', w4) \<Rightarrow> (Inl e'', w4)
                        | (Inr _, w4) \<Rightarrow> (Inr False, w4)))))"

text \<open>
  \<^verbatim>\<open>start_transaction\<close>. The blocking acquire of a held lock is the outcome \<open>Blocked\<close>.
  \<^verbatim>\<open>self_heal\<close> is called only when the handle is not healthy.
\<close>

definition begin_transaction :: "ref \<Rightarrow> ext \<Rightarrow> world \<Rightarrow> (error + Connection) \<times> world" where
  "begin_transaction r x w =
     (case wc_connection (w_heap w r) of
        None \<Rightarrow> (Inl AttributeError, w)
      | Some connection \<Rightarrow>
          (case ext_begin x of
             Some e \<Rightarrow> (Inl e, emit ConnectionBegin w)
           | None \<Rightarrow>
               (Inr connection,
                update_handle r (\<lambda>h. h\<lparr>wc_transaction := Some Transaction\<rparr>) (emit ConnectionBegin w))))"

definition WaitableConnection_start_transaction :: "ref \<Rightarrow> ext \<Rightarrow> world \<Rightarrow> (error + Connection) \<times> world" where
  "WaitableConnection_start_transaction r x w =
     (if wc_lock (w_heap w r) then (Inl Blocked, w)
      else
        (let w1 = update_handle r (\<lambda>h. h\<lparr>wc_lock := True\<rparr>) w;
             w2 = update_handle r (\<lambda>h. h\<lparr>wc_in_use := True\<rparr>) w1
         in if \<not> WaitableConnection_is_healthy (w_heap w2 r) then
              (case WaitableConnection_self_heal r x w2 of
                 (Inl e, w3) \<Rightarrow> (Inl e, w3)
               | (Inr healed, w3) \<Rightarrow>
                   (if \<not> healed then
                      (Inl (Exception ''Failed to start transaction - connection could not self-heal''),
                       update_handle r (\<lambda>h. h\<lparr>wc_lock := False\<rparr>)
                         (update_handle r (\<lambda>h. h\<lparr>wc_in_use := False\<rparr>) w3))
                    else begin_transaction r x w3))
            else begin_transaction r x w2))"

text \<open>
  \<^verbatim>\<open>Lock.release()\<close> on a lock that is not held raises RuntimeError. \<open>exc_val\<close> is the
  text of the exception passed by the caller, if any.
\<close>

definition release_lock :: "ref \<Rightarrow> world \<Rightarrow> (error + unit) \<times> world" where
  "release_lock r w =
     (if wc_lock (w_heap w r) then (Inr (), update_handle r (\<lambda>h. h\<lparr>wc_lock := False\<rparr>) w)
      else (Inl RuntimeError, w))"

definition WaitableConnection_rollback_transaction ::
  "ref \<Rightarrow> string option \<Rightarrow> ext \<Rightarrow> world \<Rightarrow> (error + unit) \<times> world" where
  "WaitableConnection_rollback_transaction r exc_val x w =
     (case percent_format ''rolling back transaction. Exception = [%s]'' [py_str exc_val] of
        Inl e \<Rightarrow> (Inl e, w)
      | Inr msg \<Rightarrow>
          (let w1 = emit (Log ERROR msg) w
           in case wc_transaction (w_heap w1 r) of
                None \<Rightarrow> (Inl AttributeError, w1)
              | Some t \<Rightarrow>
                  (case ext_rollback x of
                     Some e \<Rightarrow> (Inl e, emit TransactionRollback w1)
                   | None \<Rightarrow>
                       release_lock r
                         (update_handle r (\<lambda>h. h\<lparr>wc_in_use := False\<rparr>) (emit TransactionRollback w1)))))"

definition WaitableConnection_commit_transaction :: "ref \<Rightarrow> ext \<Rightarrow> world \<Rightarrow> (error + unit) \<times> world" where
  "WaitableConnection_commit_transaction r x w =
     (case wc_transaction (w_heap w r) of
        None \<Rightarrow> (Inl AttributeError, w)
      | Some t \<Rightarrow>
          (case ext_commit x of
             Some e \<Rightarrow> (Inl e, emit TransactionCommit w)
           | None \<Rightarrow>
               release_lock r
                 (update_handle r (\<lambda>h. h\<lparr>wc_in_use := False\<rparr>) (emit TransactionCommit w))))"

text \<open>
  The handle as a context manager. \<open>exc\<close> is \<open>None\<close> when the block ended normally
  (\<^verbatim>\<open>exc_type is None\<close>) and the text of the exception otherwise. After the rollback,
  \<^verbatim>\<open>__exit__\<close> calls \<^verbatim>\<open>exc_tb.print_exc(file=stdout)\<close>; a traceback object has no such
  attribute, which raises AttributeError.
\<close>

definition WaitableConnection_enter :: "ref \<Rightarrow> ext \<Rightarrow> world \<Rightarrow> (error + Connection) \<times> world" where
  "WaitableConnection_enter r x w = WaitableConnection_start_transaction r x w"

definition WaitableConnection_exit :: "ref \<Rightarrow> string option \<Rightarrow> ext \<Rightarrow> world \<Rightarrow> (error + bool) \<times> world" where
  "WaitableConnection_exit r exc x w =
     (case exc of
        Some exc_val \<Rightarrow>
          (case WaitableConnection_rollback_transaction r (Some exc_val) x w of
             (Inl e, w') \<Rightarrow> (Inl e, w')
           | (Inr _, w') \<Rightarrow> (Inl AttributeError, w'))
      | None \<Rightarrow>
          (case WaitableConnection_commit_transaction r x w of
             (Inl e, w') \<Rightarrow> (Inl e, w')
           | (Inr _, w') \<Rightarrow> (Inr True, w')))"

section \<open>TransactionManager\<close>

text \<open>
  \<^verbatim>\<open>TransactionManager\<close> imports the pool under the module name
  \<^verbatim>\<open>db.connection_pool\<close>; it is taken to be the pool module above, the only one in the
  repository. \<^verbatim>\<open>__enter__\<close> asks the pool for a handle (\<open>x1\<close> gives the external outcomes of that
  call) and starts a transaction on it (\<open>x2\<close>); any exception of \<^verbatim>\<open>start_transaction\<close>
  is replaced by the manager's own. The registry lookup of \<^verbatim>\<open>get_pooled_connection\<close> is
  taken to find the pool of the world.
\<close>

record TransactionManager =
  tm_waitable_connection :: "ref option"

definition TransactionManager_enter ::
  "bool \<Rightarrow> ext \<Rightarrow> ext \<Rightarrow> TransactionManager \<Rightarrow> world \<Rightarrow> (error + Connection) \<times> TransactionManager \<times> world" where
  "TransactionManager_enter locked x1 x2 tm w =
     (case ConnectionPool_get_connection locked x1 w of
        (Inl e, w1) \<Rightarrow> (Inl e, tm, w1)
      | (Inr None, w1) \<Rightarrow>
          (Inl (Exception ''Failed to start transaction - could not get connection from pool''),
           tm\<lparr>tm_waitable_connection := None\<rparr>, w1)
      | (Inr (Some r), w1) \<Rightarrow>
          (case WaitableConnection_start_transaction r x2 w1 of
             (Inl Blocked, w2) \<Rightarrow> (Inl Blocked, tm\<lparr>tm_waitable_connection := Some r\<rparr>, w2)
           | (Inl e, w2) \<Rightarrow>
               (Inl (Exception ''Failed to start transaction - could not''),
                tm\<lparr>tm_waitable_connection := Some r\<rparr>, w2)
           | (Inr connection, w2) \<Rightarrow> (Inr connection, tm\<lparr>tm_waitable_connection := Some r\<rparr>, w2)))"

definition TransactionManager_exit ::
  "TransactionManager \<Rightarrow> string option \<Rightarrow> ext \<Rightarrow> world \<Rightarrow> (error + bool) \<times> world" where
  "TransactionManager_exit tm exc x w =
     (case tm_waitable_connection tm of
        None \<Rightarrow> (Inl AttributeError, w)
      | Some r \<Rightarrow>
          (case exc of
             Some exc_val \<Rightarrow>
               (case WaitableConnection_rollback_transaction r None x w of
                  (Inl e, w') \<Rightarrow> (Inl e, w')
                | (Inr _, w') \<Rightarrow> (Inr False, w'))
           | None \<Rightarrow>
               (case WaitableConnection_commit_transaction r x w of
                  (Inl e, w') \<Rightarrow> (Inl e, w')
                | (Inr _, w') \<Rightarrow> (Inr True, w'))))"

section \<open>Sequences of calls\<close>

text \<open>
  A call on the pool or on one of its handles, with its inputs; \<open>apply_call\<close> is the
  world after the call, whether it returned or raised.
\<close>

datatype call =
    Call_get_connection bool ext
  | Call_create_connection bool ext
  | Call_remove_connection ref
  | Call_start_transaction ref ext
  | Call_commit_transaction ref ext
  | Call_rollback_transaction ref "string option" ext

fun apply_call :: "call \<Rightarrow> world \<Rightarrow> world" where
  "apply_call (Call_get_connection locked x) w = snd (ConnectionPool_get_connection locked x w)"
| "apply_call (Call_create_connection lock x) w = snd (ConnectionPool_create_connection lock x w)"
| "apply_call (Call_remove_connection r) w = snd (ConnectionPool_remove_connection r w)"
| "apply_call (Call_start_transaction r x) w = snd (WaitableConnection_start_transaction r x w)"
| "apply_call (Call_commit_transaction r x) w = snd (WaitableConnection_commit_transaction r x w)"
| "apply_call (Call_rollback_transaction r v x) w = snd (WaitableConnection_rollback_transaction r v x w)"

fun run_calls :: "call list \<Rightarrow> world \<Rightarrow> world" where
  "run_calls [] w = w"
| "run_calls (c # cs) w = run_calls cs (apply_call c w)"

section \<open>Size relations between worlds\<close>

text \<open>
  \<open>size_kept w w'\<close>: the step from \<open>w\<close> to \<open>w'\<close> keeps the configured maximum and does
  not enlarge the rotation. \<open>size_bounded w w'\<close>: it keeps the maximum and leaves the
  rotation no larger than the larger of its old size and the maximum.
\<close>

definition pool_max :: "world \<Rightarrow> int" where
  "pool_max w = cp_max_pool_size (w_pool w)"

definition size_kept :: "world \<Rightarrow> world \<Rightarrow> bool" where
  "size_kept w w' \<longleftrightarrow> pool_max w' = pool_max w \<and> ConnectionPool_size w' \<le> ConnectionPool_size w"

definition size_bounded :: "world \<Rightarrow> world \<Rightarrow> bool" where
  "size_bounded w w' \<longleftrightarrow> pool_max w' = pool_max w
      \<and> int (ConnectionPool_size w') \<le> max (int (ConnectionPool_size w)) (pool_max w)"

text \<open>
  The condition of \<^verbatim>\<open>get_connection\<close> under which it asks for growth, for a cursor that
  \<^verbatim>\<open>peek()\<close> can read.
\<close>

definition wants_growth :: "bool \<Rightarrow> world \<Rightarrow> bool" where
  "wants_growth locked w \<longleftrightarrow>
     ConnectionPool_size w = 0
     \<or> (int (ConnectionPool_size w) < cp_max_pool_size (w_pool w)
         \<and> (case ConnectionCycle_peek (cp_connection_cycle (w_pool w)) of
               Inr (Some r) \<Rightarrow> WaitableConnection_in_use (w_heap w r)
             | _ \<Rightarrow> False)
         \<and> \<not> locked)"

section \<open>ConnectionDetails: the endpoint identity\<close>

text \<open>
  Python values that occur as attributes of \<^verbatim>\<open>ConnectionDetails\<close>, their rendering by
  \<^verbatim>\<open>str\<close> and \<^verbatim>\<open>repr\<close>, and a dictionary as an association list in insertion order.
  \<open>repr_str\<close> follows Python's \<^verbatim>\<open>repr\<close> of a string: single quotes unless the string
  holds a single quote and no double quote, with the backslash, the quote in use and the
  control characters escaped.
\<close>


datatype pyval = PyStr string | PyInt int | PyBool bool | PyNone

fun str_nat :: "nat \<Rightarrow> string" where
  "str_nat n = (if n < 10 then [''0123456789'' ! n] else str_nat (n div 10) @ [''0123456789'' ! (n mod 10)])"

definition str_int :: "int \<Rightarrow> string" where
  "str_int i = (if i < 0 then CHR ''-'' # str_nat (nat (- i)) else str_nat (nat i))"

definition hex_digit :: "nat \<Rightarrow> char" where
  "hex_digit n = ''0123456789abcdef'' ! (n mod 16)"

definition repr_char :: "char \<Rightarrow> char \<Rightarrow> string" where
  "repr_char quote c =
     (if c = CHR 0x5C then [CHR 0x5C, CHR 0x5C]
      else if c = quote then [CHR 0x5C, quote]
      else if c = CHR 0x0A then [CHR 0x5C, CHR ''n'']
      else if c = CHR 0x0D then [CHR 0x5C, CHR ''r'']
      else if c = CHR 0x09 then [CHR 0x5C, CHR ''t'']
      else if of_char c < (32::nat) \<or> of_char c = (127::nat)
        then [CHR 0x5C, CHR ''x'', hex_digit (of_char c div 16), hex_digit (of_char c)]
      else [c])"

definition repr_str :: "string \<Rightarrow> string" where
  "repr_str s =
     (let quote = (if CHR 0x27 \<in> set s \<and> CHR 0x22 \<notin> set s then CHR 0x22 else CHR 0x27)
      in quote # concat (map (repr_char quote) s) @ [quote])"

fun py_repr :: "pyval \<Rightarrow> string" where
  "py_repr (PyStr s) = repr_str s"
| "py_repr (PyInt i) = str_int i"
| "py_repr (PyBool b) = (if b then ''True'' else ''False'')"
| "py_repr PyNone = ''None''"

fun str_join :: "string \<Rightarrow> string list \<Rightarrow> string" where
  "str_join sep [] = []"
| "str_join sep [x] = x"
| "str_join sep (x # y # ys) = x @ sep @ str_join sep (y # ys)"

definition str_dict :: "(string \<times> pyval) list \<Rightarrow> string" where
  "str_dict kvs = ''{'' @ str_join '', '' (map (\<lambda>(k, v). repr_str k @ '': '' @ py_repr v) kvs) @ ''}''"

fun dict_set :: "string \<Rightarrow> pyval \<Rightarrow> (string \<times> pyval) list \<Rightarrow> (string \<times> pyval) list" where
  "dict_set k v [] = [(k, v)]"
| "dict_set k v ((k', v') # kvs) = (if k' = k then (k, v) # kvs else (k', v') # dict_set k v kvs)"

text \<open>
  The attributes in the order \<^verbatim>\<open>__init__\<close> assigns them, which is the order of
  \<^verbatim>\<open>__dict__\<close>. \<^verbatim>\<open>get_key\<close> is the f-string \<^verbatim>\<open>{host}:{port}:{database}:{user}:{schema}\<close>;
  \<^verbatim>\<open>__repr__\<close> copies \<^verbatim>\<open>__dict__\<close>, overwrites the entry of the password with six
  asterisks and renders the copy with \<^verbatim>\<open>str\<close>.
\<close>

record ConnectionDetails =
  cd_dialect :: string
  cd_driver :: "string option"
  cd_host :: string
  cd_port :: int
  cd_database :: string
  cd_user :: string
  cd_password :: string
  cd_schema :: string
  cd_disable_ssl :: bool

definition ConnectionDetails_dict :: "ConnectionDetails \<Rightarrow> (string \<times> pyval) list" where
  "ConnectionDetails_dict d =
     [(''dialect'', PyStr (cd_dialect d)),
      (''driver'', (case cd_driver d of None \<Rightarrow> PyNone | Some s \<Rightarrow> PyStr s)),
      (''host'', PyStr (cd_host d)),
      (''port'', PyInt (cd_port d)),
      (''database'', PyStr (cd_database d)),
      (''user'', PyStr (cd_user d)),
      (''password'', PyStr (cd_password d)),
      (''schema'', PyStr (cd_schema d)),
      (''disable_ssl'', PyBool (cd_disable_ssl d))]"

definition ConnectionDetails_get_key :: "ConnectionDetails \<Rightarrow> string" where
  "ConnectionDetails_get_key d =
     cd_host d @ '':'' @ str_int (cd_port d) @ '':'' @ cd_database d @ '':'' @ cd_user d
       @ '':'' @ cd_schema d"

definition ConnectionDetails_repr :: "ConnectionDetails \<Rightarrow> string" where
  "ConnectionDetails_repr d = str_dict (dict_set ''password'' (PyStr ''******'') (ConnectionDetails_dict d))"


section \<open>Example values\<close>

text \<open>
  External outcomes in which every library call succeeds and the connection obtained is
  open, and a store of three idle handles with the ids a, b and c; used to run the code
  on concrete inputs.
\<close>

definition ext_ok :: "string \<Rightarrow> ext" where
  "ext_ok uuid =
     \<lparr>ext_uuid = uuid, ext_create_engine = None, ext_connect = Inr \<lparr>conn_closed = False\<rparr>,
      ext_close = None, ext_begin = None, ext_commit = None, ext_rollback = None,
      ext_exc_info = ''(None, None, None)''\<rparr>"

definition example_heap :: "ref \<Rightarrow> WaitableConnection" where
  "example_heap r =
     WaitableConnection_init (if r = 0 then ''a'' else if r = 1 then ''b'' else ''c'')
       \<lparr>conn_closed = False\<rparr>"

text \<open>
  The pool that \<^verbatim>\<open>initialize\<close> builds when every library call succeeds: the handles
  get the ids A, A+, A++ and so on.
\<close>

definition example_pool :: "int \<Rightarrow> int \<Rightarrow> world" where
  "example_pool max_pool_size initial_pool_size =
     snd (ConnectionPool_initialize max_pool_size initial_pool_size (ext_ok [])
            (\<lambda>i. ext_ok (''A'' @ replicate i CHR ''+'')))"

section \<open>Counter wraparound\<close>

text \<open>
  C6. \<^verbatim>\<open>AtomicInt.next(ceiling)\<close> returns the value stored before the call; the stored
  value becomes 0 when the old value plus one exceeds the ceiling and the old value plus
  one otherwise. From stored value 0 with ceiling 2, three calls in a row return 0, 1, 2
  and leave 1, 2, 0 stored.
\<close>

theorem AtomicInt_next_spec:
  "fst (AtomicInt_next c a) = ai_value a
   \<and> ai_value (snd (AtomicInt_next c a)) = (if ai_value a + 1 > c then 0 else ai_value a + 1)
   \<and> AtomicInt_next 2 (AtomicInt_init 0) = (0, AtomicInt_init 1)
   \<and> AtomicInt_next 2 (AtomicInt_init 1) = (1, AtomicInt_init 2)
   \<and> AtomicInt_next 2 (AtomicInt_init 2) = (2, AtomicInt_init 0)"
  by (simp add: AtomicInt_next_def AtomicInt_init_def Let_def)


section \<open>Deleting from the rotation\<close>

lemma delete_scan_absent:
  "\<forall>c\<in>set items. wc_id (hp c) \<noteq> wc_id (hp connection) \<Longrightarrow> delete_scan hp connection items i = -1"
  by (induction items arbitrary: i) (auto simp: WaitableConnection_eq_def)

text \<open>
  C10. When no handle in the rotation has the id of the given handle, \<^verbatim>\<open>delete\<close>
  returns False and the rotation (list and cursor) is unchanged.
\<close>

theorem delete_absent_handle:
  "\<forall>c\<in>set (cc_items cyc). wc_id (hp c) \<noteq> wc_id (hp connection) \<Longrightarrow>
   ConnectionCycle_delete hp connection cyc = (Inr False, cyc)"
  by (simp add: ConnectionCycle_delete_def delete_scan_absent)

theorem delete_absent_handle_witness:
  "wc_id (example_heap 0) \<noteq> wc_id (example_heap 2)
   \<and> wc_id (example_heap 1) \<noteq> wc_id (example_heap 2)
   \<and> ConnectionCycle_delete example_heap 2 \<lparr>cc_items = [0, 1], cc_pointer = \<lparr>ai_value = 1\<rparr>\<rparr>
       = (Inr False, \<lparr>cc_items = [0, 1], cc_pointer = \<lparr>ai_value = 1\<rparr>\<rparr>)"
proof -
  have h: "\<forall>c\<in>set (cc_items \<lparr>cc_items = [0, 1], cc_pointer = \<lparr>ai_value = 1\<rparr>\<rparr>).
             wc_id (example_heap c) \<noteq> wc_id (example_heap 2)"
    by (simp add: example_heap_def WaitableConnection_init_def)
  from delete_absent_handle [OF h] h show ?thesis by simp
qed

text \<open>
  What \<^verbatim>\<open>_delete_by_index\<close> does for an index and a cursor inside the list: the
  element at the index is removed, and the cursor moves as the code says.
\<close>

lemma delete_by_index_effect:
  assumes "0 \<le> i" "i < int (length (cc_items c))"
  shows "ConnectionCycle__delete_by_index i c =
     (Inr (Some (cc_items c ! nat i)),
      \<lparr>cc_items = take (nat i) (cc_items c) @ drop (Suc (nat i)) (cc_items c),
       cc_pointer = \<lparr>ai_value =
         (if ai_value (cc_pointer c) \<ge> i
          then (if ai_value (cc_pointer c) \<ge> int (length (cc_items c)) - 1 then 0
                else ai_value (cc_pointer c) - 1)
          else ai_value (cc_pointer c))\<rparr>\<rparr>)"
  using assms
  by (simp add: ConnectionCycle__delete_by_index_def AtomicInt_get_def AtomicInt_set_def
      AtomicInt_dec_def py_getitem_def py_delitem_def py_norm_index_def Let_def)

lemma delete_by_index_sole:
  "ConnectionCycle__delete_by_index 0 \<lparr>cc_items = [h], cc_pointer = \<lparr>ai_value = 0\<rparr>\<rparr>
     = (Inr (Some h), \<lparr>cc_items = [], cc_pointer = \<lparr>ai_value = 0\<rparr>\<rparr>)"
  by (simp add: delete_by_index_effect)

text \<open>
  C1. The cursor after \<^verbatim>\<open>_delete_by_index\<close> is not always an index \<open>0 .. size - 1\<close> of
  the remaining list. With the handles 0 and 1, the cursor at 0 and the deletion index 0,
  the cursor is at or past the index and is not the last index, so it is decremented: one
  handle is left and the cursor is \<open>-1\<close>. Deleting that sole remaining handle then
  leaves the rotation empty with the cursor still at \<open>-1\<close>, not 0. With three handles
  the same deletion leaves the handles 1 and 2 with the cursor at \<open>-1\<close>; Python reads
  position \<open>-1\<close> as the last element, so the next \<^verbatim>\<open>cycle()\<close> does not raise but returns
  handle 2 before handle 1.
\<close>

theorem delete_by_index_cursor_negative:
  "ConnectionCycle__delete_by_index 0 \<lparr>cc_items = [0, 1], cc_pointer = \<lparr>ai_value = 0\<rparr>\<rparr>
     = (Inr (Some 0), \<lparr>cc_items = [1], cc_pointer = \<lparr>ai_value = - 1\<rparr>\<rparr>)
   \<and> ConnectionCycle__delete_by_index 0 \<lparr>cc_items = [1], cc_pointer = \<lparr>ai_value = - 1\<rparr>\<rparr>
     = (Inr (Some 1), \<lparr>cc_items = [], cc_pointer = \<lparr>ai_value = - 1\<rparr>\<rparr>)
   \<and> ConnectionCycle__delete_by_index 0 \<lparr>cc_items = [0, 1, 2], cc_pointer = \<lparr>ai_value = 0\<rparr>\<rparr>
     = (Inr (Some 0), \<lparr>cc_items = [1, 2], cc_pointer = \<lparr>ai_value = - 1\<rparr>\<rparr>)
   \<and> fst (cycle_times 2 \<lparr>cc_items = [1, 2], cc_pointer = \<lparr>ai_value = - 1\<rparr>\<rparr>)
     = [Inr (Some 2), Inr (Some 1)]"
  by (simp add: delete_by_index_effect eval_nat_numeral ConnectionCycle_cycle_def
      ConnectionCycle__cycle_def AtomicInt_next_def py_getitem_def py_norm_index_def Let_def)

section \<open>Round robin\<close>


lemma cycle_empty: "cc_items c = [] \<Longrightarrow> ConnectionCycle_cycle c = (Inr None, c)"
  by (simp add: ConnectionCycle_cycle_def)












section \<open>The bound on the pool size\<close>


lemma pool_emit [simp]: "w_pool (emit e w) = w_pool w"
  by (simp add: emit_def)

lemma pool_update_handle [simp]: "w_pool (update_handle r f w) = w_pool w"
  by (simp add: update_handle_def)

lemma pool_set_cycle [simp]: "w_pool (set_cycle c w) = (w_pool w)\<lparr>cp_connection_cycle := c\<rparr>"
  by (simp add: set_cycle_def)

lemma size_set_cycle [simp]: "ConnectionPool_size (set_cycle c w) = length (cc_items c)"
  by (simp add: ConnectionPool_size_def ConnectionCycle_size_def)

lemma cycle_items [simp]: "cc_items (snd (ConnectionCycle_cycle c)) = cc_items c"
  by (simp add: ConnectionCycle_cycle_def ConnectionCycle__cycle_def AtomicInt_next_def Let_def
      split: sum.splits)

lemma delete_by_index_length:
  "length (cc_items (snd (ConnectionCycle__delete_by_index i c))) \<le> length (cc_items c)"
  by (auto simp: ConnectionCycle__delete_by_index_def py_delitem_def py_getitem_def Let_def
      split: sum.splits)

lemma delete_length:
  "length (cc_items (snd (ConnectionCycle_delete hp r c))) \<le> length (cc_items c)"
  using delete_by_index_length [of "delete_scan hp r (cc_items c) 0" c]
  by (auto simp: ConnectionCycle_delete_def Let_def split: prod.splits sum.splits)

lemma size_kept_bounded: "size_kept w w' \<Longrightarrow> size_bounded w w'"
  by (auto simp: size_kept_def size_bounded_def)

lemma size_kept_refl [simp]: "size_kept w w"
  by (simp add: size_kept_def)

lemma size_kept_trans: "size_kept w w' \<Longrightarrow> size_kept w' w'' \<Longrightarrow> size_kept w w''"
  by (auto simp: size_kept_def)

lemma size_kept_pool: "w_pool w' = w_pool w \<Longrightarrow> size_kept w w'"
  by (simp add: size_kept_def pool_max_def ConnectionPool_size_def)

lemma create_db_engine_kept: "size_kept w (snd (ConnectionPool_create_db_engine rc x w))"
  by (auto simp: ConnectionPool_create_db_engine_def size_kept_def pool_max_def ConnectionPool_size_def
      split: option.splits)

lemma remove_connection_kept: "size_kept w (snd (ConnectionPool_remove_connection r w))"
  using delete_length [of "w_heap w" r "cp_connection_cycle (w_pool w)"]
  by (auto simp: ConnectionPool_remove_connection_def size_kept_def pool_max_def ConnectionPool_size_def
      ConnectionCycle_size_def split: prod.splits)

lemma create_raw_connection_kept: "size_kept w (snd (ConnectionPool_create_raw_connection x w))"
  using create_db_engine_kept [of w False x]
  by (auto simp: ConnectionPool_create_raw_connection_def size_kept_def pool_max_def ConnectionPool_size_def
      split: prod.splits sum.splits if_splits)

lemma cycle_world_kept: "size_kept w (set_cycle (snd (ConnectionCycle_cycle (cp_connection_cycle (w_pool w)))) w)"
  by (simp add: size_kept_def pool_max_def ConnectionPool_size_def ConnectionCycle_size_def)

lemma cycle_itemsD: "ConnectionCycle_cycle c = (r, c') \<Longrightarrow> cc_items c' = cc_items c"
  using cycle_items [of c] by simp

lemma inner_create_bounded: "size_bounded w (snd (ConnectionPool__create_connection x w))"
  by (auto dest: cycle_itemsD simp: ConnectionPool__create_connection_def size_bounded_def pool_max_def ConnectionPool_size_def
      ConnectionCycle_size_def ConnectionCycle_add_def Let_def split: prod.splits sum.splits)

lemma size_kept_then_bounded: "size_kept w w' \<Longrightarrow> size_bounded w' w'' \<Longrightarrow> size_bounded w w''"
  by (auto simp: size_kept_def size_bounded_def)

lemma create_connection_bounded: "size_bounded w (snd (ConnectionPool_create_connection lock x w))"
proof (cases "cp_engine (w_pool w)")
  case True
  then show ?thesis by (simp add: ConnectionPool_create_connection_def inner_create_bounded)
next
  case False
  show ?thesis
  proof (cases "ConnectionPool_create_db_engine False x w")
    case (Pair res w1)
    have k: "size_kept w w1" using create_db_engine_kept [of w False x] Pair by simp
    show ?thesis
    proof (cases res)
      case (Inl e)
      with Pair False k show ?thesis
        by (simp add: ConnectionPool_create_connection_def size_kept_bounded)
    next
      case (Inr u)
      with Pair False show ?thesis
        using size_kept_then_bounded [OF k inner_create_bounded [of w1 x]]
        by (simp add: ConnectionPool_create_connection_def)
    qed
  qed
qed

lemma get_connection_bounded: "size_bounded w (snd (ConnectionPool_get_connection locked x w))"
  using create_connection_bounded [of w True x] size_kept_bounded [OF cycle_world_kept [of w]]
  by (auto simp: ConnectionPool_get_connection_def Let_def size_kept_bounded
      split: sum.splits option.splits prod.splits)


lemma release_lock_pool [simp]: "w_pool (snd (release_lock r w)) = w_pool w"
  by (simp add: release_lock_def)

lemma commit_pool [simp]: "w_pool (snd (WaitableConnection_commit_transaction r x w)) = w_pool w"
  by (simp add: WaitableConnection_commit_transaction_def split: option.splits)

lemma rollback_pool [simp]: "w_pool (snd (WaitableConnection_rollback_transaction r v x w)) = w_pool w"
  by (simp add: WaitableConnection_rollback_transaction_def Let_def split: option.splits sum.splits)

lemma begin_pool [simp]: "w_pool (snd (begin_transaction r x w)) = w_pool w"
  by (simp add: begin_transaction_def split: option.splits)

lemma self_heal_kept: "size_kept w (snd (WaitableConnection_self_heal r x w))"
proof (cases "percent_format ''self-healing connection...'' [ext_exc_info x]")
  case (Inl e)
  then show ?thesis by (simp add: WaitableConnection_self_heal_def)
next
  case (Inr msg)
  define w2 where "w2 = (case wc_connection (w_heap (emit (Log DEBUG msg) w) r) of
                       None \<Rightarrow> emit (Log DEBUG msg) w
                     | Some c \<Rightarrow>
                         (case ext_close x of
                            Some e \<Rightarrow> emit ConnectionClose (emit (Log DEBUG msg) w)
                          | None \<Rightarrow> update_handle r (\<lambda>h. h\<lparr>wc_connection := Some (c\<lparr>conn_closed := True\<rparr>)\<rparr>)
                                      (emit ConnectionClose (emit (Log DEBUG msg) w))))"
  have p2: "w_pool w2 = w_pool w" by (simp add: w2_def split: option.splits)
  then have k2: "size_kept w w2" by (rule size_kept_pool)
  obtain res w3 where raw: "ConnectionPool_create_raw_connection x w2 = (res, w3)"
    by (cases "ConnectionPool_create_raw_connection x w2")
  have k3: "size_kept w2 w3" using create_raw_connection_kept [of w2 x] raw by simp
  have k23: "size_kept w w3" by (rule size_kept_trans [OF k2 k3])
  show ?thesis
  proof (cases res)
    case (Inr connection)
    have "size_kept w3 (update_handle r (\<lambda>h. h\<lparr>wc_connection := Some connection\<rparr>) w3)"
      by (simp add: size_kept_pool)
    with k23 Inr raw \<open>percent_format ''self-healing connection...'' [ext_exc_info x] = Inr msg\<close>
    show ?thesis
      by (simp add: WaitableConnection_self_heal_def Let_def w2_def [symmetric] size_kept_trans)
  next
    case (Inl e)
    let ?f = "percent_format ''failed to self-heal connection. Removing connection from pool. Error = [%s]'' [ext_exc_info x]"
    show ?thesis
    proof (cases ?f)
      case (Inl e')
      with k23 \<open>res = Inl e\<close> raw \<open>percent_format ''self-healing connection...'' [ext_exc_info x] = Inr msg\<close>
      show ?thesis
        by (simp add: WaitableConnection_self_heal_def Let_def w2_def [symmetric])
    next
      case (Inr msg')
      have "size_kept w3 (emit (Log ERROR msg') w3)" by (simp add: size_kept_pool)
      then have "size_kept w (emit (Log ERROR msg') w3)" using k23 size_kept_trans by blast
      then have "size_kept w (snd (ConnectionPool_remove_connection r (emit (Log ERROR msg') w3)))"
        using remove_connection_kept size_kept_trans by blast
      with Inr \<open>res = Inl e\<close> raw \<open>percent_format ''self-healing connection...'' [ext_exc_info x] = Inr msg\<close>
      show ?thesis
        by (simp add: WaitableConnection_self_heal_def Let_def w2_def [symmetric] split: prod.splits sum.splits)
    qed
  qed
qed

lemma start_transaction_kept: "size_kept w (snd (WaitableConnection_start_transaction r x w))"
proof (cases "wc_lock (w_heap w r)")
  case True
  then show ?thesis by (simp add: WaitableConnection_start_transaction_def)
next
  case False
  define w2 where "w2 = update_handle r (\<lambda>h. h\<lparr>wc_in_use := True\<rparr>) (update_handle r (\<lambda>h. h\<lparr>wc_lock := True\<rparr>) w)"
  have k2: "size_kept w w2" by (simp add: w2_def size_kept_pool)
  show ?thesis
  proof (cases "WaitableConnection_is_healthy (w_heap w2 r)")
    case True
    have "size_kept w2 (snd (begin_transaction r x w2))" by (simp add: size_kept_pool)
    with k2 have "size_kept w (snd (begin_transaction r x w2))" using size_kept_trans by blast
    with True False show ?thesis
      by (simp add: WaitableConnection_start_transaction_def Let_def w2_def [symmetric])
  next
    case unhealthy: False
    obtain res w3 where sh: "WaitableConnection_self_heal r x w2 = (res, w3)"
      by (cases "WaitableConnection_self_heal r x w2")
    have "size_kept w2 w3" using self_heal_kept [of w2 r x] sh by simp
    with k2 have k3: "size_kept w w3" using size_kept_trans by blast
    have b: "size_kept w (snd (begin_transaction r x w3))"
      using k3 size_kept_trans [OF k3 size_kept_pool [of "snd (begin_transaction r x w3)" w3]] by simp
    have u: "size_kept w (update_handle r (\<lambda>h. h\<lparr>wc_lock := False\<rparr>)
                         (update_handle r (\<lambda>h. h\<lparr>wc_in_use := False\<rparr>) w3))"
      using size_kept_trans [OF k3 size_kept_pool] by simp
    from unhealthy False sh k3 b u show ?thesis
      by (simp add: WaitableConnection_start_transaction_def Let_def w2_def [symmetric] split: sum.splits)
  qed
qed

lemma size_bounded_trans: "size_bounded w w' \<Longrightarrow> size_bounded w' w'' \<Longrightarrow> size_bounded w w''"
  by (auto simp: size_bounded_def)

lemma apply_call_bounded: "size_bounded w (apply_call c w)"
proof (cases c)
  case (Call_get_connection locked x)
  then show ?thesis by (simp add: get_connection_bounded)
next
  case (Call_create_connection lock x)
  then show ?thesis by (simp add: create_connection_bounded)
next
  case (Call_remove_connection r)
  then show ?thesis by (simp add: remove_connection_kept size_kept_bounded)
next
  case (Call_start_transaction r x)
  then show ?thesis by (simp add: start_transaction_kept size_kept_bounded)
next
  case (Call_commit_transaction r x)
  then show ?thesis by (simp add: size_kept_pool size_kept_bounded)
next
  case (Call_rollback_transaction r v x)
  then show ?thesis by (simp add: size_kept_pool size_kept_bounded)
qed

lemma run_calls_bounded: "size_bounded w (run_calls cs w)"
proof (induction cs arbitrary: w)
  case Nil
  show ?case by (simp add: size_bounded_def)
next
  case (Cons c cs)
  show ?case
    using size_bounded_trans [OF apply_call_bounded [of w c] Cons.IH [of "apply_call c w"]]
    by simp
qed

lemma grow_at_capacity:
  assumes "cp_max_pool_size (w_pool w) \<le> int (ConnectionPool_size w)"
  shows "ConnectionPool__create_connection x w =
           (fst (ConnectionCycle_cycle (cp_connection_cycle (w_pool w))),
            set_cycle (snd (ConnectionCycle_cycle (cp_connection_cycle (w_pool w)))) w)"
  using assms
  by (simp add: ConnectionPool__create_connection_def ConnectionPool_size_def split: prod.splits)

lemma size_bounded_refl: "size_bounded w w"
  by (simp add: size_bounded_def)

lemma initialize_loop_bounded: "size_bounded w (snd (initialize_loop i n xs w))"
proof (induction n arbitrary: i w)
  case 0
  show ?case by (simp add: size_bounded_refl)
next
  case (Suc n)
  obtain res w' where c: "ConnectionPool_create_connection False (xs i) w = (res, w')"
    by (cases "ConnectionPool_create_connection False (xs i) w")
  have b: "size_bounded w w'" using create_connection_bounded [of w False "xs i"] c by simp
  show ?case
  proof (cases res)
    case (Inl e)
    with c b show ?thesis by simp
  next
    case (Inr r)
    with c show ?thesis using size_bounded_trans [OF b Suc.IH [of w' "Suc i"]] by simp
  qed
qed

lemma initialize_bounded:
  "size_bounded (empty_world m) (snd (ConnectionPool_initialize m n x xs))"
proof -
  obtain res w where e: "ConnectionPool_create_db_engine False x (empty_world m) = (res, w)"
    by (cases "ConnectionPool_create_db_engine False x (empty_world m)")
  have k: "size_bounded (empty_world m) w"
    using create_db_engine_kept [of "empty_world m" False x] e by (simp add: size_kept_bounded)
  show ?thesis
  proof (cases res)
    case (Inl err)
    with e k show ?thesis by (simp add: ConnectionPool_initialize_def)
  next
    case (Inr u)
    with e k show ?thesis
      using size_bounded_trans [OF k initialize_loop_bounded [of w 0 "nat n" xs]]
      by (simp add: ConnectionPool_initialize_def)
  qed
qed

lemma initialized_pool_within_bound:
  assumes "0 \<le> m"
  shows "int (ConnectionPool_size (snd (ConnectionPool_initialize m n x xs))) \<le> m
         \<and> cp_max_pool_size (w_pool (snd (ConnectionPool_initialize m n x xs))) = m"
  using initialize_bounded [of m n x xs] assms
  by (simp add: size_bounded_def pool_max_def empty_world_def ConnectionPool_init_def
      ConnectionPool_size_def ConnectionCycle_size_def ConnectionCycle_init_def)

text \<open>
  C2. No sequence of \<^verbatim>\<open>get_connection\<close>, \<^verbatim>\<open>create_connection\<close> (not raw),
  \<^verbatim>\<open>remove_connection\<close>, \<^verbatim>\<open>start_transaction\<close>, \<^verbatim>\<open>commit_transaction\<close> and
  \<^verbatim>\<open>rollback_transaction\<close> calls, whatever the library calls do and whether the calls
  return or raise, leaves the rotation larger than the larger of its size before and
  \<^verbatim>\<open>max_pool_size\<close>, and the maximum itself never changes. So a rotation that holds at most
  \<^verbatim>\<open>max_pool_size\<close> handles never holds more, and that is the case for every pool
  that \<^verbatim>\<open>initialize\<close> builds with a maximum \<open>m \<ge> 0\<close>, whatever the initial size asked
  for. When the rotation holds the maximum (or more), the grow routine
  \<^verbatim>\<open>_create_connection\<close> is \<^verbatim>\<open>cycle()\<close>: same result, same rotation after it, no handle
  created.
\<close>

theorem pool_size_bounded:
  "int (ConnectionPool_size (run_calls cs w))
     \<le> max (int (ConnectionPool_size w)) (cp_max_pool_size (w_pool w))
   \<and> cp_max_pool_size (w_pool (run_calls cs w)) = cp_max_pool_size (w_pool w)
   \<and> (int (ConnectionPool_size w) \<le> cp_max_pool_size (w_pool w) \<longrightarrow>
        int (ConnectionPool_size (run_calls cs w)) \<le> cp_max_pool_size (w_pool w))
   \<and> (0 \<le> m \<longrightarrow>
        int (ConnectionPool_size (run_calls cs (snd (ConnectionPool_initialize m n x0 xs)))) \<le> m)
   \<and> (cp_max_pool_size (w_pool w) \<le> int (ConnectionPool_size w) \<longrightarrow>
          ConnectionPool__create_connection x w =
            (fst (ConnectionCycle_cycle (cp_connection_cycle (w_pool w))),
             set_cycle (snd (ConnectionCycle_cycle (cp_connection_cycle (w_pool w)))) w)
          \<and> ConnectionPool_size (snd (ConnectionPool__create_connection x w)) = ConnectionPool_size w
          \<and> w_next_ref (snd (ConnectionPool__create_connection x w)) = w_next_ref w)"
proof -
  have a: "int (ConnectionPool_size (run_calls cs w))
             \<le> max (int (ConnectionPool_size w)) (cp_max_pool_size (w_pool w))
           \<and> cp_max_pool_size (w_pool (run_calls cs w)) = cp_max_pool_size (w_pool w)"
    using run_calls_bounded [of w cs] by (simp add: size_bounded_def pool_max_def)
  have b: "0 \<le> m \<longrightarrow>
        int (ConnectionPool_size (run_calls cs (snd (ConnectionPool_initialize m n x0 xs)))) \<le> m"
  proof
    assume m: "0 \<le> m"
    let ?w0 = "snd (ConnectionPool_initialize m n x0 xs)"
    from initialized_pool_within_bound [OF m, of n x0 xs] run_calls_bounded [of ?w0 cs]
    show "int (ConnectionPool_size (run_calls cs ?w0)) \<le> m"
      by (simp add: size_bounded_def pool_max_def)
  qed
  have c: "cp_max_pool_size (w_pool w) \<le> int (ConnectionPool_size w) \<longrightarrow>
          ConnectionPool__create_connection x w =
            (fst (ConnectionCycle_cycle (cp_connection_cycle (w_pool w))),
             set_cycle (snd (ConnectionCycle_cycle (cp_connection_cycle (w_pool w)))) w)
          \<and> ConnectionPool_size (snd (ConnectionPool__create_connection x w)) = ConnectionPool_size w
          \<and> w_next_ref (snd (ConnectionPool__create_connection x w)) = w_next_ref w"
    by (auto simp: grow_at_capacity ConnectionPool_size_def ConnectionCycle_size_def set_cycle_def)
  from a b c show ?thesis by auto
qed

text \<open>The definitions unfolded to run the model on a concrete world.\<close>

lemmas model_defs =
  ConnectionPool_initialize_def ConnectionPool_create_db_engine_def empty_world_def
  ConnectionPool_init_def ConnectionCycle_init_def AtomicInt_init_def
  ConnectionPool_create_connection_def ConnectionPool__create_connection_def
  ConnectionPool_get_connection_def ConnectionPool_remove_connection_def
  ConnectionPool_size_def ConnectionCycle_size_def ConnectionCycle_add_def
  ConnectionCycle_cycle_def ConnectionCycle__cycle_def ConnectionCycle_peek_def
  AtomicInt_next_def AtomicInt_get_def AtomicInt_set_def AtomicInt_dec_def
  py_getitem_def py_delitem_def py_norm_index_def
  WaitableConnection_init_def WaitableConnection_is_healthy_def WaitableConnection_in_use_def
  WaitableConnection_start_transaction_def WaitableConnection_commit_transaction_def
  begin_transaction_def release_lock_def
  emit_def update_handle_def set_cycle_def ext_ok_def Let_def

lemma example_pool_one:
  "0 < m \<Longrightarrow> example_pool m 1 =
     \<lparr>w_heap = (w_heap (empty_world m))(0 := WaitableConnection_init ''A'' \<lparr>conn_closed = False\<rparr>),
      w_next_ref = 1,
      w_pool = \<lparr>cp_engine = True, cp_connections = [0],
                cp_connection_cycle = \<lparr>cc_items = [0], cc_pointer = \<lparr>ai_value = 0\<rparr>\<rparr>,
                cp_max_pool_size = m\<rparr>,
      w_trace = [EngineConnect]\<rparr>"
  by (simp add: example_pool_def model_defs)

theorem pool_size_bounded_witness:
  "int (ConnectionPool_size (example_pool 1 1)) = cp_max_pool_size (w_pool (example_pool 1 1))
   \<and> int (ConnectionPool_size
        (run_calls [Call_get_connection False (ext_ok ''B''), Call_create_connection True (ext_ok ''C'')]
           (example_pool 1 1))) \<le> 1
   \<and> (0::int) \<le> 1
   \<and> fst (ConnectionPool__create_connection (ext_ok ''B'') (example_pool 1 1)) = Inr (Some 0)
   \<and> ConnectionPool_size (snd (ConnectionPool__create_connection (ext_ok ''B'') (example_pool 1 1))) = 1"
proof -
  let ?w = "example_pool 1 1"
  let ?cs = "[Call_get_connection False (ext_ok ''B''), Call_create_connection True (ext_ok ''C'')]"
  have h: "int (ConnectionPool_size ?w) = cp_max_pool_size (w_pool ?w)"
    by (simp add: example_pool_one ConnectionPool_size_def ConnectionCycle_size_def)
  have c: "fst (ConnectionCycle_cycle (cp_connection_cycle (w_pool ?w))) = Inr (Some 0)"
    by (simp add: example_pool_one model_defs)
  have s: "ConnectionPool_size ?w = 1"
    by (simp add: example_pool_one ConnectionPool_size_def ConnectionCycle_size_def)
  note t = pool_size_bounded [of ?cs ?w 1 1 "ext_ok []" "\<lambda>i. ext_ok (''A'' @ replicate i CHR ''+'')" "ext_ok ''B''"]
  from t have "0 \<le> (1::int) \<longrightarrow> int (ConnectionPool_size (run_calls ?cs ?w)) \<le> 1"
    unfolding example_pool_def by blast
  then have r1: "int (ConnectionPool_size (run_calls ?cs ?w)) \<le> 1" by simp
  have p: "cp_max_pool_size (w_pool ?w) \<le> int (ConnectionPool_size ?w)" using h by linarith
  from t p have g: "ConnectionPool__create_connection (ext_ok ''B'') ?w =
            (fst (ConnectionCycle_cycle (cp_connection_cycle (w_pool ?w))),
             set_cycle (snd (ConnectionCycle_cycle (cp_connection_cycle (w_pool ?w)))) ?w)"
    and g': "ConnectionPool_size (snd (ConnectionPool__create_connection (ext_ok ''B'') ?w)) = ConnectionPool_size ?w"
    by blast+
  have r2: "fst (ConnectionPool__create_connection (ext_ok ''B'') ?w) = Inr (Some 0)"
    by (simp only: g fst_conv c)
  have r3: "ConnectionPool_size (snd (ConnectionPool__create_connection (ext_ok ''B'') ?w)) = 1"
    by (simp only: g' s)
  from h r1 r2 r3 show ?thesis by simp
qed

section \<open>Admission: grow or reuse\<close>


lemma peek_none_empty:
  "ConnectionCycle_peek c = Inr None \<Longrightarrow> cc_items c = []"
  by (auto simp: ConnectionCycle_peek_def split: if_splits sum.splits)

lemma get_connection_grow:
  assumes "ConnectionCycle_peek (cp_connection_cycle (w_pool w)) = Inr ro" "wants_growth locked w"
  shows "ConnectionPool_get_connection locked x w = ConnectionPool_create_connection True x w"
  using assms
  by (auto simp: ConnectionPool_get_connection_def wants_growth_def ConnectionPool_size_def Let_def
      split: option.splits)

lemma get_connection_cycle:
  assumes "ConnectionCycle_peek (cp_connection_cycle (w_pool w)) = Inr ro" "\<not> wants_growth locked w"
  shows "ConnectionPool_get_connection locked x w =
           (fst (ConnectionCycle_cycle (cp_connection_cycle (w_pool w))),
            set_cycle (snd (ConnectionCycle_cycle (cp_connection_cycle (w_pool w)))) w)"
  using assms peek_none_empty [of "cp_connection_cycle (w_pool w)"]
  by (auto simp: ConnectionPool_get_connection_def wants_growth_def ConnectionPool_size_def
      ConnectionCycle_size_def Let_def split: option.splits prod.splits)

lemma create_connection_new:
  assumes "int (ConnectionPool_size w) < cp_max_pool_size (w_pool w)"
    "cp_engine (w_pool w) \<or> ext_create_engine x = None"
    "ext_connect x = Inr conn"
  shows "fst (ConnectionPool_create_connection lock x w) = Inr (Some (w_next_ref w))
     \<and> cp_connection_cycle (w_pool (snd (ConnectionPool_create_connection lock x w)))
         = ConnectionCycle_add (w_next_ref w) (cp_connection_cycle (w_pool w))
     \<and> w_heap (snd (ConnectionPool_create_connection lock x w)) (w_next_ref w)
         = WaitableConnection_init (ext_uuid x) conn"
  using assms
  by (auto simp: ConnectionPool_create_connection_def ConnectionPool__create_connection_def
      ConnectionPool_create_db_engine_def ConnectionPool_size_def emit_def set_cycle_def Let_def)

lemma create_connection_connect_fails:
  assumes "int (ConnectionPool_size w) < cp_max_pool_size (w_pool w)"
    "cp_engine (w_pool w) \<or> ext_create_engine x = None"
    "ext_connect x = Inl e"
  shows "fst (ConnectionPool_create_connection lock x w) = Inl e
     \<and> cp_connection_cycle (w_pool (snd (ConnectionPool_create_connection lock x w)))
         = cp_connection_cycle (w_pool w)"
  using assms
  by (auto simp: ConnectionPool_create_connection_def ConnectionPool__create_connection_def
      ConnectionPool_create_db_engine_def ConnectionPool_size_def emit_def set_cycle_def Let_def)

lemma create_connection_capacity:
  assumes "cp_max_pool_size (w_pool w) \<le> int (ConnectionPool_size w)"
    "cp_engine (w_pool w) \<or> ext_create_engine x = None"
  shows "fst (ConnectionPool_create_connection lock x w)
           = fst (ConnectionCycle_cycle (cp_connection_cycle (w_pool w)))
     \<and> cp_connection_cycle (w_pool (snd (ConnectionPool_create_connection lock x w)))
         = snd (ConnectionCycle_cycle (cp_connection_cycle (w_pool w)))
     \<and> w_next_ref (snd (ConnectionPool_create_connection lock x w)) = w_next_ref w"
  using assms
  by (auto simp: ConnectionPool_create_connection_def ConnectionPool__create_connection_def
      ConnectionPool_create_db_engine_def ConnectionPool_size_def emit_def set_cycle_def Let_def
      split: prod.splits)

lemma wants_growth_at_capacity:
  "wants_growth locked w \<Longrightarrow> cp_max_pool_size (w_pool w) \<le> int (ConnectionPool_size w)
     \<Longrightarrow> ConnectionPool_size w = 0"
  by (auto simp: wants_growth_def)



lemma scenario_max2_initial1:
  "fst (ConnectionPool_get_connection False (ext_ok ''B'') (example_pool 2 1)) = Inr (Some 0)
   \<and> wc_in_use (w_heap (run_calls [Call_get_connection False (ext_ok ''B''),
                                   Call_start_transaction 0 (ext_ok ''B'')] (example_pool 2 1)) 0)
   \<and> fst (ConnectionPool_get_connection False (ext_ok ''B'')
            (run_calls [Call_get_connection False (ext_ok ''B''),
                        Call_start_transaction 0 (ext_ok ''B'')] (example_pool 2 1))) = Inr (Some 1)
   \<and> ConnectionPool_size
        (run_calls [Call_get_connection False (ext_ok ''B''),
                    Call_start_transaction 0 (ext_ok ''B''),
                    Call_get_connection False (ext_ok ''B'')] (example_pool 2 1)) = 2
   \<and> wc_in_use
        (w_heap (run_calls [Call_get_connection False (ext_ok ''B''),
                            Call_start_transaction 0 (ext_ok ''B''),
                            Call_get_connection False (ext_ok ''B''),
                            Call_commit_transaction 0 (ext_ok ''B'')] (example_pool 2 1)) 0) = False
   \<and> fst (ConnectionPool_get_connection False (ext_ok ''B'')
            (run_calls [Call_get_connection False (ext_ok ''B''),
                        Call_start_transaction 0 (ext_ok ''B''),
                        Call_get_connection False (ext_ok ''B''),
                        Call_commit_transaction 0 (ext_ok ''B'')] (example_pool 2 1))) = Inr (Some 0)
   \<and> fst (ConnectionPool_get_connection False (ext_ok ''B'')
            (run_calls [Call_get_connection False (ext_ok ''B''),
                        Call_start_transaction 0 (ext_ok ''B''),
                        Call_get_connection False (ext_ok ''B''),
                        Call_commit_transaction 0 (ext_ok ''B''),
                        Call_get_connection False (ext_ok ''B'')] (example_pool 2 1))) = Inr (Some 1)
   \<and> fst (ConnectionPool_get_connection False (ext_ok ''B'')
            (run_calls [Call_get_connection False (ext_ok ''B''),
                        Call_start_transaction 0 (ext_ok ''B''),
                        Call_get_connection False (ext_ok ''B''),
                        Call_commit_transaction 0 (ext_ok ''B''),
                        Call_get_connection False (ext_ok ''B''),
                        Call_get_connection False (ext_ok ''B'')] (example_pool 2 1))) = Inr (Some 0)"
  by (simp add: example_pool_one model_defs)

text \<open>
  C3, as stated, fails for a pool with \<^verbatim>\<open>max_pool_size = 0\<close>: the rotation is empty, yet
  \<^verbatim>\<open>get_connection\<close> creates no handle; the grow routine finds the pool at capacity and
  returns the result of \<^verbatim>\<open>cycle()\<close>, which is None.
\<close>

theorem get_connection_empty_max_zero_counterexample:
  "ConnectionPool_size (example_pool 0 0) = 0
   \<and> fst (ConnectionPool_get_connection False (ext_ok ''A'') (example_pool 0 0)) = Inr None
   \<and> ConnectionPool_size (snd (ConnectionPool_get_connection False (ext_ok ''A'') (example_pool 0 0))) = 0
   \<and> w_next_ref (snd (ConnectionPool_get_connection False (ext_ok ''A'') (example_pool 0 0))) = 0"
  by (simp add: example_pool_def model_defs)


text \<open>
  C3, amended. Let the cursor be readable by \<^verbatim>\<open>peek()\<close> and the engine exist or be
  buildable. \<^verbatim>\<open>get_connection\<close> asks for growth exactly when the rotation is empty, or
  its size is below \<^verbatim>\<open>max_pool_size\<close> and the handle at the cursor is in use and the
  pool lock is not seen held. Asked for growth with the size below the maximum, it
  creates a handle, appends it to the rotation and returns it when the factory yields a
  connection, and raises the factory's error, leaving the rotation alone, when it does
  not. Asked for growth at capacity (only possible for an empty rotation with a maximum
  of zero or less) it creates nothing and returns None, the result of \<^verbatim>\<open>cycle()\<close>. In
  every other case it returns the result of \<^verbatim>\<open>cycle()\<close>. In the scenario with max 2 and
  initial 1: the first call returns handle 0 (A); with A in a transaction the second call
  returns the new handle 1 (B) and the size is 2; after A commits, three more calls return
  A, B, A.
\<close>

theorem get_connection_admission:
  assumes "ConnectionCycle_peek (cp_connection_cycle (w_pool w)) = Inr ro"
    and "cp_engine (w_pool w) \<or> ext_create_engine x = None"
  shows
    "(wants_growth locked w \<and> int (ConnectionPool_size w) < cp_max_pool_size (w_pool w)
        \<and> ext_connect x = Inr conn \<longrightarrow>
          fst (ConnectionPool_get_connection locked x w) = Inr (Some (w_next_ref w))
          \<and> cp_connection_cycle (w_pool (snd (ConnectionPool_get_connection locked x w)))
              = ConnectionCycle_add (w_next_ref w) (cp_connection_cycle (w_pool w))
          \<and> w_heap (snd (ConnectionPool_get_connection locked x w)) (w_next_ref w)
              = WaitableConnection_init (ext_uuid x) conn)
     \<and> (wants_growth locked w \<and> int (ConnectionPool_size w) < cp_max_pool_size (w_pool w)
        \<and> ext_connect x = Inl e \<longrightarrow>
          fst (ConnectionPool_get_connection locked x w) = Inl e
          \<and> cp_connection_cycle (w_pool (snd (ConnectionPool_get_connection locked x w)))
              = cp_connection_cycle (w_pool w))
     \<and> (wants_growth locked w \<and> cp_max_pool_size (w_pool w) \<le> int (ConnectionPool_size w) \<longrightarrow>
          ConnectionPool_size w = 0
          \<and> fst (ConnectionPool_get_connection locked x w) = Inr None
          \<and> cp_connection_cycle (w_pool (snd (ConnectionPool_get_connection locked x w)))
              = cp_connection_cycle (w_pool w)
          \<and> w_next_ref (snd (ConnectionPool_get_connection locked x w)) = w_next_ref w)
     \<and> (\<not> wants_growth locked w \<longrightarrow>
          ConnectionPool_get_connection locked x w
            = (fst (ConnectionCycle_cycle (cp_connection_cycle (w_pool w))),
               set_cycle (snd (ConnectionCycle_cycle (cp_connection_cycle (w_pool w)))) w))
     \<and> fst (ConnectionPool_get_connection False (ext_ok ''B'') (example_pool 2 1)) = Inr (Some 0)
     \<and> wc_in_use (w_heap (run_calls [Call_get_connection False (ext_ok ''B''),
                                     Call_start_transaction 0 (ext_ok ''B'')] (example_pool 2 1)) 0)
     \<and> fst (ConnectionPool_get_connection False (ext_ok ''B'')
              (run_calls [Call_get_connection False (ext_ok ''B''),
                          Call_start_transaction 0 (ext_ok ''B'')] (example_pool 2 1))) = Inr (Some 1)
     \<and> ConnectionPool_size
          (run_calls [Call_get_connection False (ext_ok ''B''),
                      Call_start_transaction 0 (ext_ok ''B''),
                      Call_get_connection False (ext_ok ''B'')] (example_pool 2 1)) = 2
     \<and> wc_in_use
          (w_heap (run_calls [Call_get_connection False (ext_ok ''B''),
                              Call_start_transaction 0 (ext_ok ''B''),
                              Call_get_connection False (ext_ok ''B''),
                              Call_commit_transaction 0 (ext_ok ''B'')] (example_pool 2 1)) 0) = False
     \<and> fst (ConnectionPool_get_connection False (ext_ok ''B'')
              (run_calls [Call_get_connection False (ext_ok ''B''),
                          Call_start_transaction 0 (ext_ok ''B''),
                          Call_get_connection False (ext_ok ''B''),
                          Call_commit_transaction 0 (ext_ok ''B'')] (example_pool 2 1))) = Inr (Some 0)
     \<and> fst (ConnectionPool_get_connection False (ext_ok ''B'')
              (run_calls [Call_get_connection False (ext_ok ''B''),
                          Call_start_transaction 0 (ext_ok ''B''),
                          Call_get_connection False (ext_ok ''B''),
                          Call_commit_transaction 0 (ext_ok ''B''),
                          Call_get_connection False (ext_ok ''B'')] (example_pool 2 1))) = Inr (Some 1)
     \<and> fst (ConnectionPool_get_connection False (ext_ok ''B'')
              (run_calls [Call_get_connection False (ext_ok ''B''),
                          Call_start_transaction 0 (ext_ok ''B''),
                          Call_get_connection False (ext_ok ''B''),
                          Call_commit_transaction 0 (ext_ok ''B''),
                          Call_get_connection False (ext_ok ''B''),
                          Call_get_connection False (ext_ok ''B'')] (example_pool 2 1))) = Inr (Some 0)"
proof -
  note pk = assms(1) and eng = assms(2)
  have a: "wants_growth locked w \<and> int (ConnectionPool_size w) < cp_max_pool_size (w_pool w)
        \<and> ext_connect x = Inr conn \<longrightarrow>
          fst (ConnectionPool_get_connection locked x w) = Inr (Some (w_next_ref w))
          \<and> cp_connection_cycle (w_pool (snd (ConnectionPool_get_connection locked x w)))
              = ConnectionCycle_add (w_next_ref w) (cp_connection_cycle (w_pool w))
          \<and> w_heap (snd (ConnectionPool_get_connection locked x w)) (w_next_ref w)
              = WaitableConnection_init (ext_uuid x) conn"
    using get_connection_grow [OF pk] create_connection_new [OF _ eng] by simp
  have b: "wants_growth locked w \<and> int (ConnectionPool_size w) < cp_max_pool_size (w_pool w)
        \<and> ext_connect x = Inl e \<longrightarrow>
          fst (ConnectionPool_get_connection locked x w) = Inl e
          \<and> cp_connection_cycle (w_pool (snd (ConnectionPool_get_connection locked x w)))
              = cp_connection_cycle (w_pool w)"
    using get_connection_grow [OF pk] create_connection_connect_fails [OF _ eng] by simp
  have c: "wants_growth locked w \<and> cp_max_pool_size (w_pool w) \<le> int (ConnectionPool_size w) \<longrightarrow>
          ConnectionPool_size w = 0
          \<and> fst (ConnectionPool_get_connection locked x w) = Inr None
          \<and> cp_connection_cycle (w_pool (snd (ConnectionPool_get_connection locked x w)))
              = cp_connection_cycle (w_pool w)
          \<and> w_next_ref (snd (ConnectionPool_get_connection locked x w)) = w_next_ref w"
  proof
    assume h: "wants_growth locked w \<and> cp_max_pool_size (w_pool w) \<le> int (ConnectionPool_size w)"
    then have z: "ConnectionPool_size w = 0" using wants_growth_at_capacity by blast
    then have em: "cc_items (cp_connection_cycle (w_pool w)) = []"
      by (simp add: ConnectionPool_size_def ConnectionCycle_size_def)
    have cy: "ConnectionCycle_cycle (cp_connection_cycle (w_pool w)) = (Inr None, cp_connection_cycle (w_pool w))"
      using em by (rule cycle_empty)
    from h have g: "ConnectionPool_get_connection locked x w = ConnectionPool_create_connection True x w"
      using get_connection_grow [OF pk] by simp
    from h create_connection_capacity [OF _ eng, of True] cy z g
    show "ConnectionPool_size w = 0
          \<and> fst (ConnectionPool_get_connection locked x w) = Inr None
          \<and> cp_connection_cycle (w_pool (snd (ConnectionPool_get_connection locked x w)))
              = cp_connection_cycle (w_pool w)
          \<and> w_next_ref (snd (ConnectionPool_get_connection locked x w)) = w_next_ref w"
      by simp
  qed
  have d: "\<not> wants_growth locked w \<longrightarrow>
          ConnectionPool_get_connection locked x w
            = (fst (ConnectionCycle_cycle (cp_connection_cycle (w_pool w))),
               set_cycle (snd (ConnectionCycle_cycle (cp_connection_cycle (w_pool w)))) w)"
    using get_connection_cycle [OF pk] by simp
  from a b c d scenario_max2_initial1 show ?thesis by (intro conjI) simp_all
qed



theorem get_connection_admission_witness:
  "wants_growth False (run_calls [Call_get_connection False (ext_ok ''B''),
                                 Call_start_transaction 0 (ext_ok ''B'')] (example_pool 2 1))
   \<and> fst (ConnectionPool_get_connection False (ext_ok ''B'')
            (run_calls [Call_get_connection False (ext_ok ''B''),
                        Call_start_transaction 0 (ext_ok ''B'')] (example_pool 2 1))) = Inr (Some 1)
   \<and> fst (ConnectionPool_get_connection False ((ext_ok ''B'')\<lparr>ext_connect := Inl (External ''down'')\<rparr>)
            (run_calls [Call_get_connection False (ext_ok ''B''),
                        Call_start_transaction 0 (ext_ok ''B'')] (example_pool 2 1)))
       = Inl (External ''down'')
   \<and> wants_growth False (example_pool 0 0)
   \<and> fst (ConnectionPool_get_connection False (ext_ok ''B'') (example_pool 0 0)) = Inr None
   \<and> wants_growth False (example_pool 2 1) = False
   \<and> fst (ConnectionPool_get_connection False (ext_ok ''B'') (example_pool 2 1))
       = fst (ConnectionCycle_cycle (cp_connection_cycle (w_pool (example_pool 2 1))))"
proof -
  let ?wA = "run_calls [Call_get_connection False (ext_ok ''B''),
                        Call_start_transaction 0 (ext_ok ''B'')] (example_pool 2 1)"
  let ?x = "ext_ok ''B''"
  let ?xd = "(ext_ok ''B'')\<lparr>ext_connect := Inl (External ''down'')\<rparr>"
  have pA: "ConnectionCycle_peek (cp_connection_cycle (w_pool ?wA)) = Inr (Some 0)"
    by (simp add: example_pool_one model_defs)
  have eA: "cp_engine (w_pool ?wA) \<or> ext_create_engine ?x = None"
    and eAd: "cp_engine (w_pool ?wA) \<or> ext_create_engine ?xd = None"
    by (simp_all add: ext_ok_def)
  have gA: "wants_growth False ?wA"
    by (simp add: wants_growth_def example_pool_one model_defs)
  have sA: "int (ConnectionPool_size ?wA) < cp_max_pool_size (w_pool ?wA)"
    by (simp add: example_pool_one model_defs)
  have nA: "w_next_ref ?wA = 1"
    by (simp add: example_pool_one model_defs)
  have cA: "ext_connect ?x = Inr \<lparr>conn_closed = False\<rparr>" by (simp add: ext_ok_def)
  have cAd: "ext_connect ?xd = Inl (External ''down'')" by simp
  from get_connection_admission [OF pA eA, of False "\<lparr>conn_closed = False\<rparr>"] gA sA cA nA
  have r1: "fst (ConnectionPool_get_connection False ?x ?wA) = Inr (Some 1)" by simp
  from get_connection_admission [OF pA eAd, of False _ "External ''down''"] gA sA cAd
  have r2: "fst (ConnectionPool_get_connection False ?xd ?wA) = Inl (External ''down'')" by simp
  let ?w0 = "example_pool 0 0"
  have p0: "ConnectionCycle_peek (cp_connection_cycle (w_pool ?w0)) = Inr None"
    by (simp add: example_pool_def model_defs)
  have e0: "cp_engine (w_pool ?w0) \<or> ext_create_engine ?x = None" by (simp add: ext_ok_def)
  have g0: "wants_growth False ?w0"
    by (simp add: wants_growth_def example_pool_def model_defs)
  have s0: "cp_max_pool_size (w_pool ?w0) \<le> int (ConnectionPool_size ?w0)"
    by (simp add: example_pool_def model_defs)
  from get_connection_admission [OF p0 e0, of False] g0 s0
  have r3: "fst (ConnectionPool_get_connection False ?x ?w0) = Inr None" by simp
  let ?w1 = "example_pool 2 1"
  have p1: "ConnectionCycle_peek (cp_connection_cycle (w_pool ?w1)) = Inr (Some 0)"
    by (simp add: example_pool_one model_defs)
  have e1: "cp_engine (w_pool ?w1) \<or> ext_create_engine ?x = None" by (simp add: ext_ok_def)
  have g1: "wants_growth False ?w1 = False"
    by (simp add: wants_growth_def example_pool_one model_defs)
  from get_connection_admission [OF p1 e1, of False] g1
  have r4: "fst (ConnectionPool_get_connection False ?x ?w1)
              = fst (ConnectionCycle_cycle (cp_connection_cycle (w_pool ?w1)))" by simp
  from gA r1 r2 g0 r3 g1 r4 show ?thesis by blast
qed


section \<open>Self-heal, rollback and the scoped wrappers\<close>


lemma self_heal_log_line_fails:
  "percent_format ''self-healing connection...'' [a] = Inl TypeError"
  by simp

lemma self_heal_raises: "WaitableConnection_self_heal r x w = (Inl TypeError, w)"
  by (simp add: WaitableConnection_self_heal_def)

lemma start_transaction_unhealthy:
  assumes "\<not> wc_lock (w_heap w r)" "\<not> WaitableConnection_is_healthy (w_heap w r)"
  shows "WaitableConnection_start_transaction r x w =
           (Inl TypeError,
            update_handle r (\<lambda>h. h\<lparr>wc_in_use := True\<rparr>) (update_handle r (\<lambda>h. h\<lparr>wc_lock := True\<rparr>) w))"
  using assms
  by (simp add: WaitableConnection_start_transaction_def self_heal_raises Let_def
      update_handle_def WaitableConnection_is_healthy_def)

text \<open>
  C5. The handle of a pool of one has a closed connection and a free lock, and the factory
  would supply a fresh connection. \<^verbatim>\<open>start_transaction\<close> takes the lock, marks the handle
  in use and calls \<^verbatim>\<open>self_heal\<close>, whose first statement applies \<^verbatim>\<open>%\<close> to a format with
  no conversion and one argument: TypeError. Nothing catches it, so
  \<^verbatim>\<open>start_transaction\<close> raises TypeError with the lock still held and the handle still
  in use; no connection is requested, no transaction is begun, and the rotation keeps its
  size.
\<close>

theorem start_transaction_self_heal_raises:
  "fst (WaitableConnection_start_transaction 0 (ext_ok ''B'')
          (update_handle 0 (\<lambda>h. h\<lparr>wc_connection := Some \<lparr>conn_closed = True\<rparr>\<rparr>) (example_pool 1 1)))
     = Inl TypeError
   \<and> w_heap (snd (WaitableConnection_start_transaction 0 (ext_ok ''B'')
          (update_handle 0 (\<lambda>h. h\<lparr>wc_connection := Some \<lparr>conn_closed = True\<rparr>\<rparr>) (example_pool 1 1)))) 0
     = \<lparr>wc_id = ''A'', wc_connection = Some \<lparr>conn_closed = True\<rparr>, wc_lock = True,
        wc_transaction = None, wc_in_use = True\<rparr>
   \<and> ConnectionPool_size (snd (WaitableConnection_start_transaction 0 (ext_ok ''B'')
          (update_handle 0 (\<lambda>h. h\<lparr>wc_connection := Some \<lparr>conn_closed = True\<rparr>\<rparr>) (example_pool 1 1))))
     = ConnectionPool_size (example_pool 1 1)
   \<and> w_trace (snd (WaitableConnection_start_transaction 0 (ext_ok ''B'')
          (update_handle 0 (\<lambda>h. h\<lparr>wc_connection := Some \<lparr>conn_closed = True\<rparr>\<rparr>) (example_pool 1 1))))
     = w_trace (example_pool 1 1)"
proof -
  let ?w = "update_handle 0 (\<lambda>h. h\<lparr>wc_connection := Some \<lparr>conn_closed = True\<rparr>\<rparr>) (example_pool 1 1)"
  have l: "\<not> wc_lock (w_heap ?w 0)"
    by (simp add: example_pool_one update_handle_def WaitableConnection_init_def)
  have u: "\<not> WaitableConnection_is_healthy (w_heap ?w 0)"
    by (simp add: update_handle_def WaitableConnection_is_healthy_def)
  show ?thesis
    unfolding start_transaction_unhealthy [OF l u]
    by (simp add: example_pool_one update_handle_def WaitableConnection_init_def
        ConnectionPool_size_def)
qed

lemma rollback_log_line:
  "percent_format ''rolling back transaction. Exception = [%s]'' [a]
     = Inr (''rolling back transaction. Exception = ['' @ a @ '']'')"
  by simp

lemma handle_in_use_idem: "\<not> wc_in_use h \<Longrightarrow> h\<lparr>wc_in_use := False\<rparr> = h"
  by (cases h) simp

text \<open>
  On a handle at rest (lock free, not in use), \<^verbatim>\<open>rollback_transaction\<close> always raises:
  AttributeError when the handle never had a transaction, the library's error when the
  rollback of the old transaction object fails, and RuntimeError from releasing a lock
  that is not held otherwise. The store of handles and the pool are left as they were.
\<close>

lemma rollback_at_rest:
  assumes "\<not> wc_lock (w_heap w r)" "\<not> wc_in_use (w_heap w r)"
  shows "fst (WaitableConnection_rollback_transaction r v x w)
           = Inl (case wc_transaction (w_heap w r) of
                    None \<Rightarrow> AttributeError
                  | Some t \<Rightarrow> (case ext_rollback x of Some e \<Rightarrow> e | None \<Rightarrow> RuntimeError))
       \<and> w_heap (snd (WaitableConnection_rollback_transaction r v x w)) = w_heap w
       \<and> w_pool (snd (WaitableConnection_rollback_transaction r v x w)) = w_pool w"
  using assms
  by (auto simp: WaitableConnection_rollback_transaction_def rollback_log_line Let_def emit_def
      update_handle_def release_lock_def handle_in_use_idem split: option.splits)



text \<open>
  C8, as stated, fails. A handle runs one transaction to its commit; the next
  \<^verbatim>\<open>start_transaction\<close> takes the lock and marks the handle in use, and then
  \<^verbatim>\<open>connection.begin()\<close> raises, so no transaction is open while the lock is held and
  the object of the committed transaction is still stored. \<^verbatim>\<open>rollback_transaction\<close>
  on that handle returns normally, and it is no no-op: it clears the in-use flag and
  releases the lock.
\<close>

theorem rollback_after_failed_begin_counterexample:
  "fst (WaitableConnection_start_transaction 0 (ext_ok ''B'') (example_pool 1 1))
     = Inr \<lparr>conn_closed = False\<rparr>
   \<and> fst (WaitableConnection_commit_transaction 0 (ext_ok ''B'')
            (run_calls [Call_start_transaction 0 (ext_ok ''B'')] (example_pool 1 1))) = Inr ()
   \<and> fst (WaitableConnection_start_transaction 0
            ((ext_ok ''B'')\<lparr>ext_begin := Some (External ''begin failed'')\<rparr>)
            (run_calls [Call_start_transaction 0 (ext_ok ''B''),
                        Call_commit_transaction 0 (ext_ok ''B'')] (example_pool 1 1)))
       = Inl (External ''begin failed'')
   \<and> w_heap (run_calls [Call_start_transaction 0 (ext_ok ''B''),
                        Call_commit_transaction 0 (ext_ok ''B''),
                        Call_start_transaction 0
                          ((ext_ok ''B'')\<lparr>ext_begin := Some (External ''begin failed'')\<rparr>)]
               (example_pool 1 1)) 0
       = \<lparr>wc_id = ''A'', wc_connection = Some \<lparr>conn_closed = False\<rparr>, wc_lock = True,
          wc_transaction = Some Transaction, wc_in_use = True\<rparr>
   \<and> fst (WaitableConnection_rollback_transaction 0 None (ext_ok ''B'')
            (run_calls [Call_start_transaction 0 (ext_ok ''B''),
                        Call_commit_transaction 0 (ext_ok ''B''),
                        Call_start_transaction 0
                          ((ext_ok ''B'')\<lparr>ext_begin := Some (External ''begin failed'')\<rparr>)]
               (example_pool 1 1)))
       = Inr ()
   \<and> w_heap (snd (WaitableConnection_rollback_transaction 0 None (ext_ok ''B'')
            (run_calls [Call_start_transaction 0 (ext_ok ''B''),
                        Call_commit_transaction 0 (ext_ok ''B''),
                        Call_start_transaction 0
                          ((ext_ok ''B'')\<lparr>ext_begin := Some (External ''begin failed'')\<rparr>)]
               (example_pool 1 1)))) 0
       = \<lparr>wc_id = ''A'', wc_connection = Some \<lparr>conn_closed = False\<rparr>, wc_lock = False,
          wc_transaction = Some Transaction, wc_in_use = False\<rparr>"
  by (simp add: WaitableConnection_rollback_transaction_def py_str_def example_pool_one model_defs)

lemma handle_lock_idem: "\<not> wc_lock h \<Longrightarrow> h\<lparr>wc_lock := False\<rparr> = h"
  by (cases h) simp

text \<open>
  C8, amended. \<^verbatim>\<open>rollback_transaction\<close> tests no state of the handle; what it does
  depends on the stored transaction object, on the library's rollback of it and on the
  lock. With no transaction object it raises AttributeError and changes nothing. With
  one, it calls the library's rollback: when that raises, the error is raised and nothing
  changes; when it returns and the lock is free, the in-use flag is cleared and releasing
  the lock raises RuntimeError; when it returns and the lock is held, the in-use flag is
  cleared, the lock is released and the call returns normally. So on a handle at rest
  (lock free, not in use) the call always fails explicitly and leaves the handle store and
  the pool unchanged, while on a handle whose lock is held without an open transaction it
  can complete and release the lock.
\<close>

theorem rollback_without_state_test:
  "(wc_transaction (w_heap w r) = None \<longrightarrow>
      fst (WaitableConnection_rollback_transaction r v x w) = Inl AttributeError
      \<and> w_heap (snd (WaitableConnection_rollback_transaction r v x w)) = w_heap w
      \<and> w_pool (snd (WaitableConnection_rollback_transaction r v x w)) = w_pool w)
   \<and> (wc_transaction (w_heap w r) = Some t \<and> ext_rollback x = Some e \<longrightarrow>
      fst (WaitableConnection_rollback_transaction r v x w) = Inl e
      \<and> w_heap (snd (WaitableConnection_rollback_transaction r v x w)) = w_heap w
      \<and> w_pool (snd (WaitableConnection_rollback_transaction r v x w)) = w_pool w)
   \<and> (wc_transaction (w_heap w r) = Some t \<and> ext_rollback x = None \<and> \<not> wc_lock (w_heap w r) \<longrightarrow>
      fst (WaitableConnection_rollback_transaction r v x w) = Inl RuntimeError
      \<and> w_heap (snd (WaitableConnection_rollback_transaction r v x w))
          = (w_heap w)(r := (w_heap w r)\<lparr>wc_in_use := False\<rparr>)
      \<and> w_pool (snd (WaitableConnection_rollback_transaction r v x w)) = w_pool w)
   \<and> (\<not> wc_lock (w_heap w r) \<and> \<not> wc_in_use (w_heap w r) \<longrightarrow>
      fst (WaitableConnection_rollback_transaction r v x w)
        = Inl (case wc_transaction (w_heap w r) of
                 None \<Rightarrow> AttributeError
               | Some t \<Rightarrow> (case ext_rollback x of Some e \<Rightarrow> e | None \<Rightarrow> RuntimeError))
      \<and> w_heap (snd (WaitableConnection_rollback_transaction r v x w)) = w_heap w
      \<and> w_pool (snd (WaitableConnection_rollback_transaction r v x w)) = w_pool w)
   \<and> (wc_transaction (w_heap w r) = Some t \<and> ext_rollback x = None \<and> wc_lock (w_heap w r) \<longrightarrow>
      fst (WaitableConnection_rollback_transaction r v x w) = Inr ()
      \<and> w_heap (snd (WaitableConnection_rollback_transaction r v x w))
          = (w_heap w)(r := (w_heap w r)\<lparr>wc_in_use := False, wc_lock := False\<rparr>)
      \<and> w_pool (snd (WaitableConnection_rollback_transaction r v x w)) = w_pool w)"
proof (intro conjI impI)
  assume "\<not> wc_lock (w_heap w r) \<and> \<not> wc_in_use (w_heap w r)"
  then have l: "\<not> wc_lock (w_heap w r)" and u: "\<not> wc_in_use (w_heap w r)" by simp_all
  note a = rollback_at_rest [OF l u, of v x]
  from a show "fst (WaitableConnection_rollback_transaction r v x w)
        = Inl (case wc_transaction (w_heap w r) of
                 None \<Rightarrow> AttributeError
               | Some t \<Rightarrow> (case ext_rollback x of Some e \<Rightarrow> e | None \<Rightarrow> RuntimeError))"
    by simp
  from a show "w_heap (snd (WaitableConnection_rollback_transaction r v x w)) = w_heap w" by simp
  from a show "w_pool (snd (WaitableConnection_rollback_transaction r v x w)) = w_pool w" by simp
qed (auto simp: WaitableConnection_rollback_transaction_def rollback_log_line Let_def emit_def
      update_handle_def release_lock_def)

theorem rollback_without_state_test_witness:
  "wc_transaction (w_heap (example_pool 1 1) 0) = None
   \<and> fst (WaitableConnection_rollback_transaction 0 None (ext_ok ''B'') (example_pool 1 1))
       = Inl AttributeError
   \<and> wc_transaction (w_heap (run_calls [Call_start_transaction 0 (ext_ok ''B''),
                                        Call_commit_transaction 0 (ext_ok ''B'')] (example_pool 1 1)) 0)
       = Some Transaction
   \<and> wc_lock (w_heap (run_calls [Call_start_transaction 0 (ext_ok ''B''),
                                 Call_commit_transaction 0 (ext_ok ''B'')] (example_pool 1 1)) 0) = False
   \<and> wc_in_use (w_heap (run_calls [Call_start_transaction 0 (ext_ok ''B''),
                                   Call_commit_transaction 0 (ext_ok ''B'')] (example_pool 1 1)) 0) = False
   \<and> fst (WaitableConnection_rollback_transaction 0 None
            ((ext_ok ''B'')\<lparr>ext_rollback := Some (External ''gone'')\<rparr>)
            (run_calls [Call_start_transaction 0 (ext_ok ''B''),
                        Call_commit_transaction 0 (ext_ok ''B'')] (example_pool 1 1)))
       = Inl (External ''gone'')
   \<and> fst (WaitableConnection_rollback_transaction 0 None (ext_ok ''B'')
            (run_calls [Call_start_transaction 0 (ext_ok ''B''),
                        Call_commit_transaction 0 (ext_ok ''B'')] (example_pool 1 1)))
       = Inl RuntimeError
   \<and> w_heap (snd (WaitableConnection_rollback_transaction 0 None (ext_ok ''B'')
            (run_calls [Call_start_transaction 0 (ext_ok ''B''),
                        Call_commit_transaction 0 (ext_ok ''B'')] (example_pool 1 1))))
       = w_heap (run_calls [Call_start_transaction 0 (ext_ok ''B''),
                            Call_commit_transaction 0 (ext_ok ''B'')] (example_pool 1 1))
   \<and> wc_lock (w_heap (run_calls [Call_start_transaction 0 (ext_ok ''B''),
                        Call_commit_transaction 0 (ext_ok ''B''),
                        Call_start_transaction 0
                          ((ext_ok ''B'')\<lparr>ext_begin := Some (External ''begin failed'')\<rparr>)]
               (example_pool 1 1)) 0)
   \<and> fst (WaitableConnection_rollback_transaction 0 None (ext_ok ''B'')
            (run_calls [Call_start_transaction 0 (ext_ok ''B''),
                        Call_commit_transaction 0 (ext_ok ''B''),
                        Call_start_transaction 0
                          ((ext_ok ''B'')\<lparr>ext_begin := Some (External ''begin failed'')\<rparr>)]
               (example_pool 1 1)))
       = Inr ()"
proof -
  let ?x = "ext_ok ''B''"
  let ?xr = "(ext_ok ''B'')\<lparr>ext_rollback := Some (External ''gone'')\<rparr>"
  let ?w0 = "example_pool 1 1"
  let ?w2 = "run_calls [Call_start_transaction 0 (ext_ok ''B''),
                        Call_commit_transaction 0 (ext_ok ''B'')] (example_pool 1 1)"
  let ?w3 = "run_calls [Call_start_transaction 0 (ext_ok ''B''),
                        Call_commit_transaction 0 (ext_ok ''B''),
                        Call_start_transaction 0
                          ((ext_ok ''B'')\<lparr>ext_begin := Some (External ''begin failed'')\<rparr>)]
               (example_pool 1 1)"
  have t0: "wc_transaction (w_heap ?w0 0) = None"
    by (simp add: example_pool_one WaitableConnection_init_def)
  have t2: "wc_transaction (w_heap ?w2 0) = Some Transaction"
    and l2: "\<not> wc_lock (w_heap ?w2 0)" and u2: "\<not> wc_in_use (w_heap ?w2 0)"
    by (simp_all add: example_pool_one model_defs)
  have t3: "wc_transaction (w_heap ?w3 0) = Some Transaction" and l3: "wc_lock (w_heap ?w3 0)"
    by (simp_all add: example_pool_one model_defs)
  have rb: "ext_rollback ?x = None" by (simp add: ext_ok_def)
  have rbr: "ext_rollback ?xr = Some (External ''gone'')" by simp
  from rollback_without_state_test [where w = ?w0 and r = 0 and v = None and x = ?x] t0
  have a: "fst (WaitableConnection_rollback_transaction 0 None ?x ?w0) = Inl AttributeError"
    by blast
  from rollback_without_state_test [where w = ?w2 and r = 0 and v = None and x = ?xr and t = Transaction and e = "External ''gone''"] t2 rbr
  have b: "fst (WaitableConnection_rollback_transaction 0 None ?xr ?w2) = Inl (External ''gone'')"
    by blast
  from rollback_without_state_test [where w = ?w2 and r = 0 and v = None and x = ?x and t = Transaction] t2 rb l2
  have c: "fst (WaitableConnection_rollback_transaction 0 None ?x ?w2) = Inl RuntimeError"
    by blast
  from rollback_without_state_test [where w = ?w2 and r = 0 and v = None and x = ?x] l2 u2
  have d: "w_heap (snd (WaitableConnection_rollback_transaction 0 None ?x ?w2)) = w_heap ?w2"
    by blast
  from rollback_without_state_test [where w = ?w3 and r = 0 and v = None and x = ?x and t = Transaction] t3 rb l3
  have e: "fst (WaitableConnection_rollback_transaction 0 None ?x ?w3) = Inr ()"
    by blast
  from t0 a t2 l2 u2 b c d l3 e show ?thesis by blast
qed


text \<open>
  After an entry that returned, the exit of either wrapper makes exactly one call on the
  transaction: commit when the block ended normally, rollback when it raised.
\<close>

lemma begin_transaction_sets_transaction:
  "begin_transaction r x w = (Inr conn, w1) \<Longrightarrow>
     wc_transaction (w_heap w1 r) = Some Transaction \<and> w_trace w1 = w_trace w @ [ConnectionBegin]"
  by (auto simp: begin_transaction_def emit_def update_handle_def split: option.splits)

lemma enter_opens_transaction:
  assumes "WaitableConnection_enter r x w = (Inr conn, w1)"
  shows "wc_transaction (w_heap w1 r) = Some Transaction \<and> w_trace w1 = w_trace w @ [ConnectionBegin]
         \<and> wc_lock (w_heap w1 r) \<and> wc_in_use (w_heap w1 r)"
proof -
  let ?w2 = "update_handle r (\<lambda>h. h\<lparr>wc_in_use := True\<rparr>) (update_handle r (\<lambda>h. h\<lparr>wc_lock := True\<rparr>) w)"
  from assms have b: "begin_transaction r x ?w2 = (Inr conn, w1)"
    by (auto simp: WaitableConnection_enter_def WaitableConnection_start_transaction_def Let_def
        self_heal_raises split: if_splits)
  have "wc_lock (w_heap w1 r) \<and> wc_in_use (w_heap w1 r)"
    using b by (auto simp: begin_transaction_def emit_def update_handle_def split: option.splits)
  moreover have "w_trace ?w2 = w_trace w" by (simp add: update_handle_def)
  ultimately show ?thesis using begin_transaction_sets_transaction [OF b] by simp
qed

lemma exit_after_enter:
  assumes "WaitableConnection_enter r x w = (Inr conn, w1)"
  shows "w_trace (snd (WaitableConnection_exit r None x' w1)) = w_trace w1 @ [TransactionCommit]"
    and "w_trace (snd (WaitableConnection_exit r (Some v) x' w1))
           = w_trace w1 @ [Log ERROR (''rolling back transaction. Exception = ['' @ v @ '']''),
                           TransactionRollback]"
  using enter_opens_transaction [OF assms]
  by (auto simp: WaitableConnection_exit_def WaitableConnection_commit_transaction_def
      WaitableConnection_rollback_transaction_def rollback_log_line py_str_def Let_def emit_def
      update_handle_def release_lock_def split: option.splits prod.splits)

lemma manager_exit_after_enter:
  assumes "TransactionManager_enter locked x1 x2 tm w = (Inr conn, tm1, w1)"
  shows "w_trace (snd (TransactionManager_exit tm1 None x' w1)) = w_trace w1 @ [TransactionCommit]"
    and "w_trace (snd (TransactionManager_exit tm1 (Some v) x' w1))
           = w_trace w1 @ [Log ERROR ''rolling back transaction. Exception = [None]'',
                           TransactionRollback]"
proof -
  from assms obtain r w0 where
    tm1: "tm_waitable_connection tm1 = Some r"
    and st: "WaitableConnection_start_transaction r x2 w0 = (Inr conn, w1)"
    by (auto simp: TransactionManager_enter_def split: prod.splits sum.splits option.splits error.splits)
  then have e: "WaitableConnection_enter r x2 w0 = (Inr conn, w1)"
    by (simp add: WaitableConnection_enter_def)
  note o = enter_opens_transaction [OF e]
  show "w_trace (snd (TransactionManager_exit tm1 None x' w1)) = w_trace w1 @ [TransactionCommit]"
    using o tm1
    by (auto simp: TransactionManager_exit_def WaitableConnection_commit_transaction_def
        Let_def emit_def update_handle_def release_lock_def split: option.splits prod.splits)
  show "w_trace (snd (TransactionManager_exit tm1 (Some v) x' w1))
           = w_trace w1 @ [Log ERROR ''rolling back transaction. Exception = [None]'',
                           TransactionRollback]"
    using o tm1
    by (auto simp: TransactionManager_exit_def WaitableConnection_rollback_transaction_def
        rollback_log_line py_str_def Let_def emit_def update_handle_def release_lock_def
        split: option.splits prod.splits)
qed

text \<open>
  C7. A block entered through \<^verbatim>\<open>TransactionManager\<close> on a pool of one raises an
  exception with the text boom. \<^verbatim>\<open>__exit__\<close> runs \<^verbatim>\<open>rollback_transaction()\<close> without
  the exception value, so the rollback is logged with the context None; the handle's own
  \<^verbatim>\<open>__exit__\<close> on the same input passes the value and the log line carries boom.
\<close>

theorem manager_exit_drops_exception_context:
  "fst (TransactionManager_enter False (ext_ok ''B'') (ext_ok ''B'')
          \<lparr>tm_waitable_connection = None\<rparr> (example_pool 1 1)) = Inr \<lparr>conn_closed = False\<rparr>
   \<and> fst (snd (TransactionManager_enter False (ext_ok ''B'') (ext_ok ''B'')
          \<lparr>tm_waitable_connection = None\<rparr> (example_pool 1 1))) = \<lparr>tm_waitable_connection = Some 0\<rparr>
   \<and> w_trace (snd (TransactionManager_exit \<lparr>tm_waitable_connection = Some 0\<rparr> (Some ''boom'') (ext_ok ''B'')
        (snd (snd (TransactionManager_enter False (ext_ok ''B'') (ext_ok ''B'')
          \<lparr>tm_waitable_connection = None\<rparr> (example_pool 1 1))))))
       = [EngineConnect, ConnectionBegin,
          Log ERROR ''rolling back transaction. Exception = [None]'', TransactionRollback]
   \<and> w_trace (snd (WaitableConnection_exit 0 (Some ''boom'') (ext_ok ''B'')
        (snd (WaitableConnection_enter 0 (ext_ok ''B'') (example_pool 1 1)))))
       = [EngineConnect, ConnectionBegin,
          Log ERROR ''rolling back transaction. Exception = [boom]'', TransactionRollback]"
  by (simp add: TransactionManager_enter_def TransactionManager_exit_def WaitableConnection_enter_def
      WaitableConnection_exit_def WaitableConnection_rollback_transaction_def py_str_def
      example_pool_one model_defs)


section \<open>The endpoint key\<close>

text \<open>
  C9. Two \<^verbatim>\<open>ConnectionDetails\<close> that differ only in the password have the same key and
  the same printed representation. The key is host, port, database, user and schema in
  this order, joined by colons; the representation shows every attribute but prints six
  asterisks in place of the password.
\<close>

theorem password_not_in_key_or_repr:
  "ConnectionDetails_get_key (d\<lparr>cd_password := p\<rparr>) = ConnectionDetails_get_key d
   \<and> ConnectionDetails_repr (d\<lparr>cd_password := p\<rparr>) = ConnectionDetails_repr d
   \<and> ConnectionDetails_get_key d
       = cd_host d @ '':'' @ str_int (cd_port d) @ '':'' @ cd_database d @ '':'' @ cd_user d
           @ '':'' @ cd_schema d
   \<and> ConnectionDetails_repr d
       = str_dict
           [(''dialect'', PyStr (cd_dialect d)),
            (''driver'', (case cd_driver d of None \<Rightarrow> PyNone | Some s \<Rightarrow> PyStr s)),
            (''host'', PyStr (cd_host d)),
            (''port'', PyInt (cd_port d)),
            (''database'', PyStr (cd_database d)),
            (''user'', PyStr (cd_user d)),
            (''password'', PyStr ''******''),
            (''schema'', PyStr (cd_schema d)),
            (''disable_ssl'', PyBool (cd_disable_ssl d))]"
  by (simp add: ConnectionDetails_get_key_def ConnectionDetails_repr_def ConnectionDetails_dict_def)

end
